theory Spec2Isabelle
  imports
    Main
    "HOL-Library.Char_ord"
    "HOL-Library.List_Lexorder"
    "HOL-Library.Multiset"
begin

section \<open>The shell activation engine of conda (\<^verbatim>\<open>conda/activate.py\<close>)\<close>

text \<open>
  The class \<^verbatim>\<open>_Activator\<close> computes, from a snapshot of the process environment, the
  variables to export and unset and the scripts to run when an environment is entered,
  left or refreshed. The methods are embedded as HOL functions of the same name; a leading
  underscore is dropped, because an Isabelle name starts with a letter
  (\<^verbatim>\<open>_replace_prefix_in_path\<close> is \<open>replace_prefix_in_path\<close>).

  Everything the module takes from the operating system, the interpreter and the rest of
  conda is a parameter: the record \<open>host\<close>, and the record \<open>conda_context\<close> for the
  module \<^verbatim>\<open>conda.base.context\<close>. Assertions are taken as executed.
  Strings are byte strings; the whitespace and digit classes below are those of Python
  on the ASCII range.
\<close>

subsection \<open>Exceptions and Python values\<close>

datatype error =
    ArgumentError
  | ActivateHelp
  | DeactivateHelp
  | GenericHelp string
  | EnvironmentLocationNotFound string
  | EnvironmentNameNotFound string
  | KeyError string
  | IndexError
  | ValueError
  | TypeError
  | AssertionError
  | CalledProcessError

text \<open>
  A raise is the value \<open>Inl e\<close>; \<open>and_then\<close> sequences two steps and stops at the first
  raise, as the exception does.
\<close>

definition and_then :: "error + 'a \<Rightarrow> ('a \<Rightarrow> error + 'b) \<Rightarrow> error + 'b" where
  "and_then m f = (case m of Inl e \<Rightarrow> Inl e | Inr x \<Rightarrow> f x)"

text \<open>The values stored in the dictionaries of an instruction set.\<close>

datatype pyval = PyNone | PyStr string | PyInt int

subsection \<open>String operations of the Python library\<close>

abbreviation bslash :: char where "bslash \<equiv> CHR 0x5C"
abbreviation squote :: char where "squote \<equiv> CHR 0x27"
abbreviation dquote :: char where "dquote \<equiv> CHR 0x22"

text \<open>\<^verbatim>\<open>s.join(xs)\<close>\<close>

fun str_join :: "string \<Rightarrow> string list \<Rightarrow> string" where
  "str_join s [] = []"
| "str_join s [x] = x"
| "str_join s (x # y # ys) = x @ s @ str_join s (y # ys)"

text \<open>\<^verbatim>\<open>s.split(c)\<close> for a separator of one character: never the empty list.\<close>

fun split_on :: "char \<Rightarrow> string \<Rightarrow> string list" where
  "split_on c [] = [[]]"
| "split_on c (x # xs) =
     (if x = c then [] # split_on c xs
      else (case split_on c xs of [] \<Rightarrow> [[x]] | w # ws \<Rightarrow> (x # w) # ws))"

text \<open>\<^verbatim>\<open>s.replace(old, new)\<close> for a non-empty \<open>old\<close>: leftmost, non-overlapping.\<close>

fun starts_with :: "string \<Rightarrow> string \<Rightarrow> bool" where
  "starts_with [] s = True"
| "starts_with (p # ps) [] = False"
| "starts_with (p # ps) (x # xs) = (p = x \<and> starts_with ps xs)"

function str_replace :: "string \<Rightarrow> string \<Rightarrow> string \<Rightarrow> string" where
  "str_replace old new s =
     (if s = [] \<or> old = [] then s
      else if starts_with old s then new @ str_replace old new (drop (length old) s)
      else hd s # str_replace old new (tl s))"
  by pat_completeness auto
termination
  by (relation "measure (\<lambda>(old, new, s). length s)") auto

declare str_replace.simps [simp del]

text \<open>\<^verbatim>\<open>s.strip()\<close>: the ASCII characters for which \<^verbatim>\<open>str.isspace\<close> holds.\<close>

definition is_space :: "char \<Rightarrow> bool" where
  "is_space ch \<longleftrightarrow> (of_char ch :: nat) \<in> {9, 10, 11, 12, 13, 28, 29, 30, 31, 32}"

definition py_strip :: "string \<Rightarrow> string" where
  "py_strip s = rev (dropWhile is_space (rev (dropWhile is_space s)))"

text \<open>
  \<^verbatim>\<open>int(s)\<close> on text: surrounding whitespace, an optional sign, decimal digits, single
  underscores between digits; anything else raises \<^verbatim>\<open>ValueError\<close>.
\<close>

definition is_digit :: "char \<Rightarrow> bool" where
  "is_digit ch \<longleftrightarrow> CHR ''0'' \<le> ch \<and> ch \<le> CHR ''9''"

definition digit_val :: "char \<Rightarrow> nat" where
  "digit_val ch = of_char ch - 48"

fun parse_digits :: "nat \<Rightarrow> string \<Rightarrow> nat option" where
  "parse_digits acc [] = Some acc"
| "parse_digits acc [ch] = (if is_digit ch then Some (10 * acc + digit_val ch) else None)"
| "parse_digits acc (ch # ch' # rest) =
     (if is_digit ch then parse_digits (10 * acc + digit_val ch) (ch' # rest)
      else if ch = CHR ''_'' \<and> is_digit ch' then parse_digits acc (ch' # rest)
      else None)"

definition py_int :: "string \<Rightarrow> error + int" where
  "py_int s =
     (let t = py_strip s;
          neg = (t \<noteq> [] \<and> hd t = CHR ''-'');
          body = (if t \<noteq> [] \<and> (hd t = CHR ''-'' \<or> hd t = CHR ''+'') then tl t else t)
      in if body = [] \<or> \<not> is_digit (hd body) then Inl ValueError
         else (case parse_digits 0 body of
                 None \<Rightarrow> Inl ValueError
               | Some n \<Rightarrow> Inr (if neg then - int n else int n)))"

text \<open>\<^verbatim>\<open>'%d' % i\<close> and \<^verbatim>\<open>'%s' % v\<close>\<close>

function digits_of :: "nat \<Rightarrow> string" where
  "digits_of n =
     (if n < 10 then [char_of (48 + n)]
      else digits_of (n div 10) @ [char_of (48 + n mod 10)])"
  by pat_completeness auto
termination
  by (relation "measure id") auto

declare digits_of.simps [simp del]

definition str_of_int :: "int \<Rightarrow> string" where
  "str_of_int i = (if i < 0 then CHR ''-'' # digits_of (nat (- i)) else digits_of (nat i))"

fun py_str :: "pyval \<Rightarrow> string" where
  "py_str PyNone = ''None''"
| "py_str (PyStr s) = s"
| "py_str (PyInt i) = str_of_int i"

text \<open>
  A dictionary is an association list in insertion order. \<open>dict_update\<close> is
  \<^verbatim>\<open>d[k] = v\<close>: an existing key keeps its place, a new key goes to the end.
\<close>

type_synonym pydict = "(string \<times> pyval) list"

fun dict_update :: "string \<Rightarrow> pyval \<Rightarrow> pydict \<Rightarrow> pydict" where
  "dict_update k v [] = [(k, v)]"
| "dict_update k v (p # ps) = (if fst p = k then (k, v) # ps else p # dict_update k v ps)"

subsection \<open>The host and conda's configuration\<close>

text \<open>
  \<open>host\<close> holds what the module reads from \<^verbatim>\<open>os\<close>, \<^verbatim>\<open>os.path\<close>, \<^verbatim>\<open>glob\<close>,
  \<^verbatim>\<open>sys\<close> and \<^verbatim>\<open>ctypes\<close>. \<open>cygpath\<close> is the text that \<^verbatim>\<open>native_path_to_unix\<close> obtains
  for its joined input, from the \<^verbatim>\<open>cygpath\<close> process or from the regular-expression
  fallback when the program is absent; \<open>None\<close> is the process failing.
\<close>

record host =
  on_win :: bool
  pathsep :: char
  abspath :: "string \<Rightarrow> string"
  normcase :: "string \<Rightarrow> string"
  basename :: "string \<Rightarrow> string"
  dirname :: "string \<Rightarrow> string"
  os_join :: "string list \<Rightarrow> string"
  expanduser :: "string \<Rightarrow> string"
  expandvars :: "string \<Rightarrow> string"
  isdir :: "string \<Rightarrow> bool"
  glob :: "string \<Rightarrow> string list"
  sys_prefix :: string
  sys_executable :: string
  cygpath :: "string \<Rightarrow> string option"
  GetACP :: int

text \<open>
  \<open>conda_context\<close> is \<^verbatim>\<open>conda.base.context.context\<close>, with the module's constant
  \<^verbatim>\<open>ROOT_ENV_NAME\<close> and its function \<^verbatim>\<open>locate_prefix_by_name\<close> (\<open>None\<close>: it raises
  \<^verbatim>\<open>EnvironmentNameNotFound\<close>). \<open>env_prompt\<close> is \<^verbatim>\<open>context.env_prompt.format\<close>,
  applied to \<^verbatim>\<open>default_env\<close>, \<^verbatim>\<open>prefix\<close> and \<^verbatim>\<open>name\<close>.
\<close>

record conda_context =
  ROOT_ENV_NAME :: string
  root_prefix :: string
  conda_exe :: string
  changeps1 :: bool
  env_prompt :: "string \<Rightarrow> string \<Rightarrow> string \<Rightarrow> string"
  locate_prefix_by_name :: "string \<Rightarrow> string option"

subsection \<open>The activator object\<close>

datatype shell_class = Posix | Csh | Xonsh | CmdExe | Fish | Powershell

datatype conversion = PathIdentity | NativePathToUnix

text \<open>
  The instance variables that the modelled methods read. \<open>cls\<close> selects the overriding
  methods of the subclass. A template \<^verbatim>\<open>'... %s ...'\<close> is the function that fills it.
  \<open>self_stack\<close>, \<open>self_env_name_or_prefix\<close> and \<open>self_command\<close> are the attributes that
  \<^verbatim>\<open>_parse_and_set_args\<close> assigns; \<open>None\<close> is an attribute not assigned yet.
\<close>

record activator =
  cls :: shell_class
  pathsep_join :: string
  sep :: string
  path_conversion :: conversion
  script_extension :: string
  unset_var_tmpl :: "string \<Rightarrow> string"
  export_var_tmpl :: "string \<Rightarrow> string \<Rightarrow> string"
  set_var_tmpl :: "string \<Rightarrow> string \<Rightarrow> string"
  run_script_tmpl :: "string \<Rightarrow> string"
  environ :: "string \<rightharpoonup> string"
  self_stack :: "bool option"
  self_env_name_or_prefix :: "string option"
  self_command :: "string option"

subsection \<open>Path comparison and conversion\<close>

definition paths_equal :: "host \<Rightarrow> string \<Rightarrow> string \<Rightarrow> bool" where
  "paths_equal h path1 path2 =
     (if on_win h then normcase h (abspath h path1) = normcase h (abspath h path2)
      else abspath h path1 = abspath h path2)"

text \<open>
  \<^verbatim>\<open>path_identity\<close> and \<^verbatim>\<open>native_path_to_unix\<close> take one path, \<^verbatim>\<open>None\<close> or a
  sequence of paths, and dispatch on the type at run time. Each is embedded twice: at an
  optional path (\<open>_opt\<close>) and at a sequence (\<open>_seq\<close>).
\<close>

definition path_identity_opt :: "string option \<Rightarrow> string option" where
  "path_identity_opt paths = paths"

definition path_identity_seq :: "string list \<Rightarrow> string list" where
  "path_identity_seq paths = paths"

definition cygpath_final :: "host \<Rightarrow> string \<Rightarrow> error + string list" where
  "cygpath_final h joined =
     (case cygpath h joined of
        None \<Rightarrow> Inl CalledProcessError
      | Some stdout \<Rightarrow> Inr (if stdout \<noteq> [] then split_on (CHR '':'') stdout else []))"

definition native_path_to_unix_opt :: "host \<Rightarrow> string option \<Rightarrow> error + string option" where
  "native_path_to_unix_opt h paths =
     (if \<not> on_win h then Inr (path_identity_opt paths)
      else (case paths of
              None \<Rightarrow> Inr None
            | Some p \<Rightarrow>
                and_then (cygpath_final h p)
                  (\<lambda>final. case final of [] \<Rightarrow> Inl IndexError | x # _ \<Rightarrow> Inr (Some x))))"

definition native_path_to_unix_seq :: "host \<Rightarrow> string list \<Rightarrow> error + string list" where
  "native_path_to_unix_seq h paths =
     (if \<not> on_win h then Inr (path_identity_seq paths)
      else cygpath_final h (str_join [pathsep h] paths))"

definition path_conversion_opt :: "host \<Rightarrow> activator \<Rightarrow> string option \<Rightarrow> error + string option" where
  "path_conversion_opt h a paths =
     (case path_conversion a of
        PathIdentity \<Rightarrow> Inr (path_identity_opt paths)
      | NativePathToUnix \<Rightarrow> native_path_to_unix_opt h paths)"

definition path_conversion_seq :: "host \<Rightarrow> activator \<Rightarrow> string list \<Rightarrow> error + string list" where
  "path_conversion_seq h a paths =
     (case path_conversion a of
        PathIdentity \<Rightarrow> Inr (path_identity_seq paths)
      | NativePathToUnix \<Rightarrow> native_path_to_unix_seq h paths)"

subsection \<open>The search-path editor\<close>

definition get_starting_path_list :: "host \<Rightarrow> activator \<Rightarrow> error + string list" where
  "get_starting_path_list h a =
     (case environ a ''PATH'' of
        None \<Rightarrow> Inl (KeyError ''PATH'')
      | Some path \<Rightarrow>
          if on_win h then
            (let path_split = split_on (pathsep h) path;
                 library_bin = sys_prefix h @ [bslash] @ ''Library'' @ [bslash] @ ''bin''
             in case path_split of
                  [] \<Rightarrow> Inl IndexError
                | p0 # rest \<Rightarrow>
                    if paths_equal h p0 library_bin then Inr rest else Inr path_split)
          else Inr (split_on (pathsep h) path))"

definition get_path_dirs2 :: "host \<Rightarrow> activator \<Rightarrow> string \<Rightarrow> string list" where
  "get_path_dirs2 h a prefix =
     (if on_win h then
        [prefix,
         str_join (sep a) [prefix, ''Library'', ''mingw-w64'', ''bin''],
         str_join (sep a) [prefix, ''Library'', ''usr'', ''bin''],
         str_join (sep a) [prefix, ''Library'', ''bin''],
         str_join (sep a) [prefix, ''Scripts''],
         str_join (sep a) [prefix, ''bin'']]
      else [str_join (sep a) [prefix, ''bin'']])"

text \<open>The starting list of both editing methods: the argument, or the ambient \<^verbatim>\<open>PATH\<close>.\<close>

definition starting_list :: "host \<Rightarrow> activator \<Rightarrow> string list option \<Rightarrow> error + string list" where
  "starting_list h a starting_path_dirs =
     (case starting_path_dirs of
        None \<Rightarrow> and_then (get_starting_path_list h a) (path_conversion_seq h a)
      | Some dirs \<Rightarrow> path_conversion_seq h a dirs)"

text \<open>
  \<^verbatim>\<open>path_list[i:i] = ys\<close> and \<^verbatim>\<open>del path_list[i:j]\<close>; an index beyond the end is
  the end, and a slice that ends before it starts is empty.
\<close>

definition insert_slice :: "nat \<Rightarrow> 'a list \<Rightarrow> 'a list \<Rightarrow> 'a list" where
  "insert_slice i ys xs = take i xs @ ys @ drop i xs"

definition delete_slice :: "nat \<Rightarrow> nat \<Rightarrow> 'a list \<Rightarrow> 'a list" where
  "delete_slice i j xs = take i xs @ drop (max i j) xs"

definition add_prefix_to_path ::
    "host \<Rightarrow> activator \<Rightarrow> string option \<Rightarrow> string list option \<Rightarrow> error + string list" where
  "add_prefix_to_path h a prefix starting_path_dirs =
     and_then (path_conversion_opt h a prefix) (\<lambda>prefix.
     and_then (starting_list h a starting_path_dirs) (\<lambda>path_list.
       case prefix of
         None \<Rightarrow> Inl TypeError
       | Some p \<Rightarrow> Inr (insert_slice 0 (get_path_dirs2 h a p) path_list)))"

text \<open>The local function \<^verbatim>\<open>index_of_path\<close>: the first index whose entry equals the path.\<close>

fun index_of_path :: "host \<Rightarrow> string list \<Rightarrow> string \<Rightarrow> nat option" where
  "index_of_path h [] test_path = None"
| "index_of_path h (path # paths) test_path =
     (if paths_equal h path test_path then Some 0
      else map_option Suc (index_of_path h paths test_path))"

text \<open>
  The removal stage of \<^verbatim>\<open>_replace_prefix_in_path\<close> (the statement
  \<^verbatim>\<open>if old_prefix is not None: ... else: first_idx = 0\<close>), on the converted prefix and
  list: it gives \<^verbatim>\<open>first_idx\<close> and the list after the deletion.
\<close>

definition remove_old_prefix ::
    "host \<Rightarrow> activator \<Rightarrow> string option \<Rightarrow> string list \<Rightarrow> error + nat \<times> string list" where
  "remove_old_prefix h a old_prefix path_list =
     (case old_prefix of
        Some old \<Rightarrow>
          (let prefix_dirs = get_path_dirs2 h a old
           in case index_of_path h path_list (hd prefix_dirs) of
                None \<Rightarrow> Inr (0, path_list)
              | Some first_idx \<Rightarrow>
                  (case index_of_path h path_list (last prefix_dirs) of
                     None \<Rightarrow> Inl AssertionError
                   | Some last_idx \<Rightarrow>
                       Inr (first_idx, delete_slice first_idx (last_idx + 1) path_list)))
      | None \<Rightarrow> Inr (0, path_list))"

definition replace_prefix_in_path ::
    "host \<Rightarrow> activator \<Rightarrow> string option \<Rightarrow> string option \<Rightarrow> string list option
       \<Rightarrow> error + string list" where
  "replace_prefix_in_path h a old_prefix new_prefix starting_path_dirs =
     and_then (path_conversion_opt h a old_prefix) (\<lambda>old_prefix.
     and_then (path_conversion_opt h a new_prefix) (\<lambda>new_prefix.
     and_then (starting_list h a starting_path_dirs) (\<lambda>path_list.
     and_then (remove_old_prefix h a old_prefix path_list) (\<lambda>(first_idx, path_list).
       Inr (case new_prefix of
              Some new \<Rightarrow> insert_slice first_idx (get_path_dirs2 h a new) path_list
            | None \<Rightarrow> path_list)))))"

definition remove_prefix_from_path ::
    "host \<Rightarrow> activator \<Rightarrow> string option \<Rightarrow> string list option \<Rightarrow> error + string list" where
  "remove_prefix_from_path h a prefix starting_path_dirs =
     replace_prefix_in_path h a prefix None starting_path_dirs"

subsection \<open>Reading the ambient state\<close>

text \<open>
  The expression \<^verbatim>\<open>int(self.environ.get('CONDA_SHLVL', '').strip() or 0)\<close>, which
  opens each of the three builders.
\<close>

definition read_conda_shlvl :: "activator \<Rightarrow> error + int" where
  "read_conda_shlvl a =
     (let s = py_strip (case environ a ''CONDA_SHLVL'' of None \<Rightarrow> [] | Some v \<Rightarrow> v)
      in if s = [] then Inr 0 else py_int s)"

text \<open>Python's truth value of an optional string: \<^verbatim>\<open>None\<close> and \<^verbatim>\<open>''\<close> are false.\<close>

fun truthy :: "string option \<Rightarrow> bool" where
  "truthy None = False"
| "truthy (Some s) = (s \<noteq> [])"

fun pyval_of :: "string option \<Rightarrow> pyval" where
  "pyval_of None = PyNone"
| "pyval_of (Some s) = PyStr s"

subsection \<open>Scripts, default environment label and prompt\<close>

definition get_activate_scripts :: "host \<Rightarrow> activator \<Rightarrow> string option \<Rightarrow> error + string list" where
  "get_activate_scripts h a prefix =
     (case prefix of
        None \<Rightarrow> Inl TypeError
      | Some p \<Rightarrow>
          path_conversion_seq h a
            (sort (glob h (os_join h [p, ''etc'', ''conda'', ''activate.d'',
                                      ''*'' @ script_extension a]))))"

definition get_deactivate_scripts :: "host \<Rightarrow> activator \<Rightarrow> string option \<Rightarrow> error + string list" where
  "get_deactivate_scripts h a prefix =
     (case prefix of
        None \<Rightarrow> Inl TypeError
      | Some p \<Rightarrow>
          path_conversion_seq h a
            (rev (sort (glob h (os_join h [p, ''etc'', ''conda'', ''deactivate.d'',
                                           ''*'' @ script_extension a])))))"

definition default_env :: "host \<Rightarrow> conda_context \<Rightarrow> string option \<Rightarrow> error + string" where
  "default_env h c prefix =
     (case prefix of
        None \<Rightarrow> Inl TypeError
      | Some p \<Rightarrow>
          Inr (if paths_equal h p (root_prefix c) then ''base''
               else if basename h (dirname h p) = ''envs'' then basename h p
               else p))"

definition prompt_modifier ::
    "host \<Rightarrow> conda_context \<Rightarrow> string option \<Rightarrow> string \<Rightarrow> error + string" where
  "prompt_modifier h c prefix conda_default_env =
     (if changeps1 c then
        (case prefix of
           None \<Rightarrow> Inl TypeError
         | Some p \<Rightarrow> Inr (env_prompt c conda_default_env p (basename h p)))
      else Inr [])"

text \<open>
  \<^verbatim>\<open>_update_prompt\<close>: nothing in the base class; \<^verbatim>\<open>PosixActivator\<close> and
  \<^verbatim>\<open>CshActivator\<close> override it. \<^verbatim>\<open>re.sub(re.escape(m), '', s)\<close> deletes the
  occurrences of the literal text \<open>m\<close>.
\<close>

definition update_prompt :: "activator \<Rightarrow> pydict \<Rightarrow> string \<Rightarrow> pydict" where
  "update_prompt a set_vars conda_prompt_modifier =
     (case cls a of
        Posix \<Rightarrow>
          (let ps1 = (case environ a ''PS1'' of None \<Rightarrow> [] | Some v \<Rightarrow> v);
               current_prompt_modifier = environ a ''CONDA_PROMPT_MODIFIER'';
               ps1 = (case current_prompt_modifier of
                        None \<Rightarrow> ps1
                      | Some m \<Rightarrow> if m \<noteq> [] then str_replace m [] ps1 else ps1);
               ps1 = str_replace [squote] [squote, dquote, squote, dquote, squote] ps1
           in dict_update ''PS1'' (PyStr (conda_prompt_modifier @ ps1)) set_vars)
      | Csh \<Rightarrow>
          (let prompt = (case environ a ''prompt'' of None \<Rightarrow> [] | Some v \<Rightarrow> v);
               current_prompt_modifier = environ a ''CONDA_PROMPT_MODIFIER'';
               prompt = (case current_prompt_modifier of
                           None \<Rightarrow> prompt
                         | Some m \<Rightarrow> if m \<noteq> [] then str_replace m [] prompt else prompt)
           in dict_update ''prompt'' (PyStr (conda_prompt_modifier @ prompt)) set_vars)
      | _ \<Rightarrow> set_vars)"

text \<open>\<^verbatim>\<open>_build_activate_shell_custom\<close>: overridden by \<^verbatim>\<open>CmdExeActivator\<close> only.\<close>

definition build_activate_shell_custom :: "host \<Rightarrow> activator \<Rightarrow> pydict \<Rightarrow> pydict" where
  "build_activate_shell_custom h a export_vars =
     (if cls a = CmdExe \<and> on_win h
      then dict_update ''PYTHONIOENCODING'' (PyInt (GetACP h)) export_vars
      else export_vars)"

subsection \<open>The instruction set and the three builders\<close>

record cmds =
  unset_vars :: "string list"
  set_vars :: pydict
  export_vars :: pydict
  deactivate_scripts :: "string list"
  activate_scripts :: "string list"

definition no_cmds :: cmds where
  "no_cmds = \<lparr>unset_vars = [], set_vars = [], export_vars = [],
              deactivate_scripts = [], activate_scripts = []\<rparr>"

definition build_reactivate :: "host \<Rightarrow> conda_context \<Rightarrow> activator \<Rightarrow> error + cmds" where
  "build_reactivate h c a =
     (let conda_prefix = environ a ''CONDA_PREFIX''
      in and_then (read_conda_shlvl a) (\<lambda>conda_shlvl.
         if \<not> truthy conda_prefix \<or> conda_shlvl < 1 then Inr no_cmds
         else
           and_then (default_env h c conda_prefix) (\<lambda>computed_default_env.
           let conda_default_env =
                 (case environ a ''CONDA_DEFAULT_ENV'' of
                    None \<Rightarrow> computed_default_env | Some v \<Rightarrow> v)
           in and_then (replace_prefix_in_path h a conda_prefix conda_prefix None) (\<lambda>path_list.
              let new_path = str_join (pathsep_join a) path_list
              in and_then (prompt_modifier h c conda_prefix conda_default_env)
                   (\<lambda>conda_prompt_modifier.
                 let set_vars = (if changeps1 c
                                 then update_prompt a [] conda_prompt_modifier else [])
                 in and_then (prompt_modifier h c conda_prefix conda_default_env)
                      (\<lambda>exported_prompt_modifier.
                    and_then (get_deactivate_scripts h a conda_prefix) (\<lambda>deactivate_scripts.
                    and_then (get_activate_scripts h a conda_prefix) (\<lambda>activate_scripts.
                      Inr \<lparr>unset_vars = [],
                           set_vars = set_vars,
                           export_vars =
                             [(''PATH'', PyStr new_path),
                              (''CONDA_SHLVL'', PyInt conda_shlvl),
                              (''CONDA_PROMPT_MODIFIER'', PyStr exported_prompt_modifier)],
                           deactivate_scripts = deactivate_scripts,
                           activate_scripts = activate_scripts\<rparr>))))))))"

definition build_deactivate :: "host \<Rightarrow> conda_context \<Rightarrow> activator \<Rightarrow> error + cmds" where
  "build_deactivate h c a =
     (let old_conda_prefix = environ a ''CONDA_PREFIX''
      in and_then (read_conda_shlvl a) (\<lambda>old_conda_shlvl.
         if \<not> truthy old_conda_prefix \<or> old_conda_shlvl < 1 then Inr no_cmds
         else
           and_then (get_deactivate_scripts h a old_conda_prefix) (\<lambda>deactivate_scripts.
           let new_conda_shlvl = old_conda_shlvl - 1
           in and_then
                (if old_conda_shlvl = 1 then
                   and_then (remove_prefix_from_path h a old_conda_prefix None) (\<lambda>path_list.
                     Inr ([],
                          [''CONDA_PREFIX'', ''CONDA_DEFAULT_ENV'', ''CONDA_PYTHON_EXE'',
                           ''CONDA_PROMPT_MODIFIER''],
                          [(''PATH'', PyStr (str_join (pathsep_join a) path_list)),
                           (''CONDA_SHLVL'', PyInt new_conda_shlvl)],
                          []))
                 else
                   (let new_prefix = environ a (''CONDA_PREFIX_'' @ str_of_int new_conda_shlvl)
                    in and_then (default_env h c new_prefix) (\<lambda>conda_default_env.
                       and_then (prompt_modifier h c new_prefix conda_default_env)
                         (\<lambda>conda_prompt_modifier.
                       let old_prefix_stacked =
                             (environ a (''CONDA_STACKED_'' @ str_of_int old_conda_shlvl) \<noteq> None)
                       in and_then
                            (if old_prefix_stacked then
                               and_then (remove_prefix_from_path h a old_conda_prefix None)
                                 (\<lambda>path_list.
                                   Inr (path_list,
                                        [''CONDA_PREFIX_'' @ str_of_int new_conda_shlvl,
                                         ''CONDA_STACKED_'' @ str_of_int old_conda_shlvl]))
                             else
                               and_then
                                 (replace_prefix_in_path h a old_conda_prefix new_prefix None)
                                 (\<lambda>path_list.
                                   Inr (path_list,
                                        [''CONDA_PREFIX_'' @ str_of_int new_conda_shlvl])))
                            (\<lambda>(path_list, unset_vars).
                          and_then (get_activate_scripts h a new_prefix) (\<lambda>activate_scripts.
                            Inr (conda_prompt_modifier,
                                 unset_vars,
                                 [(''PATH'', PyStr (str_join (pathsep_join a) path_list)),
                                  (''CONDA_SHLVL'', PyInt new_conda_shlvl),
                                  (''CONDA_PREFIX'', pyval_of new_prefix),
                                  (''CONDA_DEFAULT_ENV'', PyStr conda_default_env),
                                  (''CONDA_PROMPT_MODIFIER'', PyStr conda_prompt_modifier)],
                                 activate_scripts)))))))
                (\<lambda>(conda_prompt_modifier, unset_vars, export_vars, activate_scripts).
                   Inr \<lparr>unset_vars = unset_vars,
                        set_vars = (if changeps1 c
                                    then update_prompt a [] conda_prompt_modifier else []),
                        export_vars = export_vars,
                        deactivate_scripts = deactivate_scripts,
                        activate_scripts = activate_scripts\<rparr>))))"

text \<open>\<^verbatim>\<open>expand\<close>, and the resolution of the target that opens \<^verbatim>\<open>_build_activate_stack\<close>.\<close>

definition expand :: "host \<Rightarrow> string \<Rightarrow> string" where
  "expand h path = abspath h (expanduser h (expandvars h path))"

definition resolve_prefix :: "host \<Rightarrow> conda_context \<Rightarrow> string \<Rightarrow> error + string" where
  "resolve_prefix h c env_name_or_prefix =
     (if list_ex (\<lambda>ch. ch = bslash \<or> ch = CHR ''/'') env_name_or_prefix then
        (let prefix = expand h env_name_or_prefix
         in if \<not> isdir h (os_join h [prefix, ''conda-meta''])
            then Inl (EnvironmentLocationNotFound prefix)
            else Inr prefix)
      else if env_name_or_prefix = ROOT_ENV_NAME c \<or> env_name_or_prefix = ''root''
        then Inr (root_prefix c)
      else (case locate_prefix_by_name c env_name_or_prefix of
              None \<Rightarrow> Inl (EnvironmentNameNotFound env_name_or_prefix)
            | Some prefix \<Rightarrow> Inr prefix))"

text \<open>The end of \<^verbatim>\<open>_build_activate_stack\<close>, from \<^verbatim>\<open>set_vars = {}\<close> to the return.\<close>

definition activate_result ::
    "host \<Rightarrow> conda_context \<Rightarrow> activator \<Rightarrow> string \<Rightarrow> pydict \<Rightarrow> string list \<Rightarrow> string list \<Rightarrow> cmds" where
  "activate_result h c a conda_prompt_modifier exports deactivates activates =
     \<lparr>unset_vars = [],
      set_vars = (if changeps1 c then update_prompt a [] conda_prompt_modifier else []),
      export_vars = build_activate_shell_custom h a exports,
      deactivate_scripts = deactivates,
      activate_scripts = activates\<rparr>"

definition build_activate_stack ::
    "host \<Rightarrow> conda_context \<Rightarrow> activator \<Rightarrow> string \<Rightarrow> bool \<Rightarrow> error + cmds" where
  "build_activate_stack h c a env_name_or_prefix stack =
     and_then (resolve_prefix h c env_name_or_prefix) (\<lambda>prefix.
     and_then (read_conda_shlvl a) (\<lambda>old_conda_shlvl.
     let new_conda_shlvl = old_conda_shlvl + 1;
         old_conda_prefix = environ a ''CONDA_PREFIX''
     in if old_conda_prefix = Some prefix \<and> old_conda_shlvl > 0 then build_reactivate h c a
        else
          and_then (get_activate_scripts h a (Some prefix)) (\<lambda>activate_scripts.
          and_then (default_env h c (Some prefix)) (\<lambda>conda_default_env.
          and_then (prompt_modifier h c (Some prefix) conda_default_env)
            (\<lambda>conda_prompt_modifier.
          if old_conda_shlvl = 0 then
            and_then (add_prefix_to_path h a (Some prefix) None) (\<lambda>path_list.
            and_then (path_conversion_opt h a (Some (sys_executable h))) (\<lambda>conda_python_exe.
            and_then (path_conversion_opt h a (Some (conda_exe c))) (\<lambda>conda_exe.
              Inr (activate_result h c a conda_prompt_modifier
                     [(''CONDA_PYTHON_EXE'', pyval_of conda_python_exe),
                      (''CONDA_EXE'', pyval_of conda_exe),
                      (''PATH'', PyStr (str_join (pathsep_join a) path_list)),
                      (''CONDA_PREFIX'', PyStr prefix),
                      (''CONDA_SHLVL'', PyInt new_conda_shlvl),
                      (''CONDA_DEFAULT_ENV'', PyStr conda_default_env),
                      (''CONDA_PROMPT_MODIFIER'', PyStr conda_prompt_modifier)]
                     [] activate_scripts))))
          else if environ a (''CONDA_PREFIX_'' @ str_of_int (old_conda_shlvl - 1)) = Some prefix
            then build_deactivate h c a
          else if stack then
            and_then (add_prefix_to_path h a (Some prefix) None) (\<lambda>path_list.
              Inr (activate_result h c a conda_prompt_modifier
                     [(''PATH'', PyStr (str_join (pathsep_join a) path_list)),
                      (''CONDA_PREFIX'', PyStr prefix),
                      (''CONDA_PREFIX_'' @ str_of_int old_conda_shlvl, pyval_of old_conda_prefix),
                      (''CONDA_SHLVL'', PyInt new_conda_shlvl),
                      (''CONDA_DEFAULT_ENV'', PyStr conda_default_env),
                      (''CONDA_PROMPT_MODIFIER'', PyStr conda_prompt_modifier),
                      (''CONDA_STACKED_'' @ str_of_int new_conda_shlvl, PyStr ''true'')]
                     [] activate_scripts))
          else
            and_then (replace_prefix_in_path h a old_conda_prefix (Some prefix) None)
              (\<lambda>path_list.
            and_then (get_deactivate_scripts h a old_conda_prefix) (\<lambda>deactivate_scripts.
              Inr (activate_result h c a conda_prompt_modifier
                     [(''PATH'', PyStr (str_join (pathsep_join a) path_list)),
                      (''CONDA_PREFIX'', PyStr prefix),
                      (''CONDA_PREFIX_'' @ str_of_int old_conda_shlvl, pyval_of old_conda_prefix),
                      (''CONDA_SHLVL'', PyInt new_conda_shlvl),
                      (''CONDA_DEFAULT_ENV'', PyStr conda_default_env),
                      (''CONDA_PROMPT_MODIFIER'', PyStr conda_prompt_modifier)]
                     deactivate_scripts activate_scripts))))))))"

definition build_activate :: "host \<Rightarrow> conda_context \<Rightarrow> activator \<Rightarrow> string \<Rightarrow> error + cmds" where
  "build_activate h c a env_name_or_prefix = build_activate_stack h c a env_name_or_prefix False"

definition build_stack :: "host \<Rightarrow> conda_context \<Rightarrow> activator \<Rightarrow> string \<Rightarrow> error + cmds" where
  "build_stack h c a env_name_or_prefix = build_activate_stack h c a env_name_or_prefix True"

subsection \<open>Command-line arguments\<close>

text \<open>
  \<^verbatim>\<open>_parse_and_set_args\<close> returns the activator with the attributes it assigns.
  \<^verbatim>\<open>help_classes[command]\<close> raises \<^verbatim>\<open>KeyError\<close> for a command that is not a key.
\<close>

definition parse_and_set_args :: "activator \<Rightarrow> string list option \<Rightarrow> error + activator" where
  "parse_and_set_args a arguments =
     (case arguments of
        None \<Rightarrow> Inl ArgumentError
      | Some [] \<Rightarrow> Inl IndexError
      | Some (command # arguments) \<Rightarrow>
          (let help_flags = [''-h'', ''--help'', ''/?''];
               non_help_args = filter (\<lambda>arg. arg \<notin> set help_flags) arguments;
               help_requested = (length arguments \<noteq> length non_help_args);
               remainder_args = filter (\<lambda>arg. arg \<noteq> [] \<and> arg \<noteq> command) non_help_args
           in if command = [] then Inl ArgumentError
              else if help_requested then
                (if command = ''activate'' then Inl ActivateHelp
                 else if command = ''deactivate'' then Inl DeactivateHelp
                 else if command = ''hook'' then Inl (GenericHelp ''hook'')
                 else if command = ''reactivate'' then Inl (GenericHelp ''reactivate'')
                 else Inl (KeyError command))
              else if command \<notin> set [''activate'', ''deactivate'', ''reactivate'', ''hook'']
                then Inl ArgumentError
              else if command = ''activate'' then
                (let stack = (''--stack'' \<in> set remainder_args);
                     remainder_args = (if stack then remove1 ''--stack'' remainder_args
                                       else remainder_args)
                 in if length remainder_args > 1 then Inl ArgumentError
                    else Inr (a\<lparr>self_stack := Some stack,
                                 self_env_name_or_prefix :=
                                   Some (case remainder_args of
                                           [] \<Rightarrow> ''base''
                                         | x # _ \<Rightarrow> if x \<noteq> [] then x else ''base''),
                                 self_command := Some command\<rparr>))
              else if remainder_args \<noteq> [] then Inl ArgumentError
              else Inr (a\<lparr>self_command := Some command\<rparr>)))"

subsection \<open>Rendering an instruction set\<close>

text \<open>
  \<^verbatim>\<open>_yield_commands\<close>: five loops, each yielding one command per element. The builders
  always give the five keys, so the defaults of \<^verbatim>\<open>cmds_dict.get\<close> are not reached.
  \<^verbatim>\<open>sorted(iteritems(d))\<close> orders the items of a dictionary by key, the keys being
  distinct.
\<close>

definition yield_commands :: "activator \<Rightarrow> cmds \<Rightarrow> string list" where
  "yield_commands a cmds_dict =
     map (run_script_tmpl a) (deactivate_scripts cmds_dict)
     @ map (unset_var_tmpl a) (sort (unset_vars cmds_dict))
     @ map (\<lambda>(key, val). set_var_tmpl a key (py_str val)) (sort_key fst (set_vars cmds_dict))
     @ map (\<lambda>(key, val). export_var_tmpl a key (py_str val)) (sort_key fst (export_vars cmds_dict))
     @ map (run_script_tmpl a) (activate_scripts cmds_dict)"

subsection \<open>The shells\<close>

text \<open>
  Each subclass sets the instance variables in its \<^verbatim>\<open>__init__\<close>; the argument is the
  copy of \<^verbatim>\<open>os.environ\<close> that \<^verbatim>\<open>_Activator.__init__\<close> takes.
\<close>

definition PosixActivator :: "(string \<rightharpoonup> string) \<Rightarrow> activator" where
  "PosixActivator env =
     \<lparr>cls = Posix, pathsep_join = '':'', sep = ''/'', path_conversion = NativePathToUnix,
      script_extension = ''.sh'',
      unset_var_tmpl = (\<lambda>k. [bslash] @ ''unset '' @ k),
      export_var_tmpl = (\<lambda>k v. [bslash] @ ''export '' @ k @ ''='' @ [squote] @ v @ [squote]),
      set_var_tmpl = (\<lambda>k v. k @ ''='' @ [squote] @ v @ [squote]),
      run_script_tmpl = (\<lambda>p. [bslash] @ ''. '' @ [dquote] @ p @ [dquote]),
      environ = env, self_stack = None, self_env_name_or_prefix = None, self_command = None\<rparr>"

definition CshActivator :: "(string \<rightharpoonup> string) \<Rightarrow> activator" where
  "CshActivator env =
     \<lparr>cls = Csh, pathsep_join = '':'', sep = ''/'', path_conversion = NativePathToUnix,
      script_extension = ''.csh'',
      unset_var_tmpl = (\<lambda>k. ''unsetenv '' @ k),
      export_var_tmpl = (\<lambda>k v. ''setenv '' @ k @ '' '' @ [dquote] @ v @ [dquote]),
      set_var_tmpl = (\<lambda>k v. ''set '' @ k @ ''='' @ [squote] @ v @ [squote]),
      run_script_tmpl = (\<lambda>p. ''source '' @ [dquote] @ p @ [dquote]),
      environ = env, self_stack = None, self_env_name_or_prefix = None, self_command = None\<rparr>"

definition XonshActivator :: "(string \<rightharpoonup> string) \<Rightarrow> activator" where
  "XonshActivator env =
     \<lparr>cls = Xonsh, pathsep_join = '':'', sep = ''/'', path_conversion = NativePathToUnix,
      script_extension = ''.xsh'',
      unset_var_tmpl = (\<lambda>k. ''del $'' @ k),
      export_var_tmpl = (\<lambda>k v. ''$'' @ k @ '' = '' @ [squote] @ v @ [squote]),
      set_var_tmpl = (\<lambda>k v. ''$'' @ k @ '' = '' @ [squote] @ v @ [squote]),
      run_script_tmpl = (\<lambda>p. ''source '' @ [dquote] @ p @ [dquote]),
      environ = env, self_stack = None, self_env_name_or_prefix = None, self_command = None\<rparr>"

definition CmdExeActivator :: "(string \<rightharpoonup> string) \<Rightarrow> activator" where
  "CmdExeActivator env =
     \<lparr>cls = CmdExe, pathsep_join = '';'', sep = [bslash], path_conversion = PathIdentity,
      script_extension = ''.bat'',
      unset_var_tmpl = (\<lambda>k. ''@SET '' @ k @ ''=''),
      export_var_tmpl = (\<lambda>k v. ''@SET '' @ [dquote] @ k @ ''='' @ v @ [dquote]),
      set_var_tmpl = (\<lambda>k v. ''@SET '' @ [dquote] @ k @ ''='' @ v @ [dquote]),
      run_script_tmpl = (\<lambda>p. ''@CALL '' @ [dquote] @ p @ [dquote]),
      environ = env, self_stack = None, self_env_name_or_prefix = None, self_command = None\<rparr>"

definition FishActivator :: "(string \<rightharpoonup> string) \<Rightarrow> activator" where
  "FishActivator env =
     \<lparr>cls = Fish, pathsep_join = [dquote] @ '' '' @ [dquote], sep = ''/'',
      path_conversion = NativePathToUnix,
      script_extension = ''.fish'',
      unset_var_tmpl = (\<lambda>k. ''set -e '' @ k),
      export_var_tmpl = (\<lambda>k v. ''set -gx '' @ k @ '' '' @ [dquote] @ v @ [dquote]),
      set_var_tmpl = (\<lambda>k v. ''set -g '' @ k @ '' '' @ [dquote] @ v @ [dquote]),
      run_script_tmpl = (\<lambda>p. ''source '' @ [dquote] @ p @ [dquote]),
      environ = env, self_stack = None, self_env_name_or_prefix = None, self_command = None\<rparr>"

definition PowershellActivator :: "(string \<rightharpoonup> string) \<Rightarrow> activator" where
  "PowershellActivator env =
     \<lparr>cls = Powershell, pathsep_join = '';'', sep = [bslash], path_conversion = PathIdentity,
      script_extension = ''.ps1'',
      unset_var_tmpl = (\<lambda>k. ''Remove-Variable '' @ k),
      export_var_tmpl = (\<lambda>k v. ''$env:'' @ k @ '' = '' @ [dquote] @ v @ [dquote]),
      set_var_tmpl = (\<lambda>k v. ''$env:'' @ k @ '' = '' @ [dquote] @ v @ [dquote]),
      run_script_tmpl = (\<lambda>p. ''. '' @ [dquote] @ p @ [dquote]),
      environ = env, self_stack = None, self_env_name_or_prefix = None, self_command = None\<rparr>"

subsection \<open>Predicates used in the statements\<close>

text \<open>
  A list is in the shell's form when the shell's path conversion returns it unchanged.
  This holds of every list on a POSIX host, where \<^verbatim>\<open>native_path_to_unix\<close> is
  \<^verbatim>\<open>path_identity\<close>, and for \<^verbatim>\<open>cmd.exe\<close> and PowerShell on Windows.
\<close>

definition in_shell_form :: "host \<Rightarrow> activator \<Rightarrow> string list \<Rightarrow> bool" where
  "in_shell_form h a paths \<longleftrightarrow> path_conversion_seq h a paths = Inr paths"

text \<open>
  The last executable directory of a prefix is apart when the host's path comparison
  tells it from each of the earlier ones. On a POSIX host there is one directory and
  nothing to tell apart.
\<close>

definition last_dir_apart :: "host \<Rightarrow> activator \<Rightarrow> string \<Rightarrow> bool" where
  "last_dir_apart h a prefix \<longleftrightarrow>
     (\<forall>d \<in> set (butlast (get_path_dirs2 h a prefix)).
        \<not> paths_equal h d (last (get_path_dirs2 h a prefix)))"


subsection \<open>Two hosts and some environments for the examples\<close>

text \<open>
  The examples use absolute, normalised paths without \<^verbatim>\<open>~\<close> or \<^verbatim>\<open>$\<close>; on these
  \<^verbatim>\<open>abspath\<close>, \<^verbatim>\<open>expanduser\<close> and \<^verbatim>\<open>expandvars\<close> return their argument, and
  \<^verbatim>\<open>os.path.join\<close> puts the separator between its arguments. The hosts below give the
  functions of \<^verbatim>\<open>os.path\<close> on such paths only. \<^verbatim>\<open>normcase\<close> is the identity on
  POSIX; on Windows it lowers the case and turns \<^verbatim>\<open>/\<close> into a backslash.
\<close>

definition posix_basename :: "string \<Rightarrow> string" where
  "posix_basename p = rev (takeWhile (\<lambda>ch. ch \<noteq> CHR ''/'') (rev p))"

definition posix_dirname :: "string \<Rightarrow> string" where
  "posix_dirname p =
     (let head = rev (dropWhile (\<lambda>ch. ch \<noteq> CHR ''/'') (rev p))
      in if head \<noteq> [] \<and> \<not> list_all (\<lambda>ch. ch = CHR ''/'') head
         then rev (dropWhile (\<lambda>ch. ch = CHR ''/'') (rev head)) else head)"

definition posix_host :: host where
  "posix_host =
     \<lparr>on_win = False, pathsep = CHR '':'',
      abspath = (\<lambda>p. p), normcase = (\<lambda>p. p),
      basename = posix_basename, dirname = posix_dirname,
      os_join = str_join ''/'',
      expanduser = (\<lambda>p. p), expandvars = (\<lambda>p. p),
      isdir = (\<lambda>p. p \<in> set [''/opt/conda/conda-meta'', ''/opt/conda/envs/dev/conda-meta'']),
      glob = (\<lambda>pattern.
                if pattern = ''/opt/conda/envs/dev/etc/conda/activate.d/*.sh''
                  then [''/opt/conda/envs/dev/etc/conda/activate.d/b.sh'',
                        ''/opt/conda/envs/dev/etc/conda/activate.d/a.sh'']
                else if pattern = ''/opt/conda/envs/dev/etc/conda/deactivate.d/*.sh''
                  then [''/opt/conda/envs/dev/etc/conda/deactivate.d/a.sh'',
                        ''/opt/conda/envs/dev/etc/conda/deactivate.d/b.sh'']
                else []),
      sys_prefix = ''/opt/conda'', sys_executable = ''/opt/conda/bin/python'',
      cygpath = (\<lambda>joined. None), GetACP = 0\<rparr>"

definition ascii_lower :: "char \<Rightarrow> char" where
  "ascii_lower ch =
     (if CHR ''A'' \<le> ch \<and> ch \<le> CHR ''Z'' then char_of (of_char ch + (32::nat)) else ch)"

definition win_normcase :: "string \<Rightarrow> string" where
  "win_normcase p = map (\<lambda>ch. if ch = CHR ''/'' then bslash else ascii_lower ch) p"

definition win_host :: host where
  "win_host =
     \<lparr>on_win = True, pathsep = CHR '';'',
      abspath = (\<lambda>p. p), normcase = win_normcase,
      basename = (\<lambda>p. rev (takeWhile (\<lambda>ch. ch \<noteq> bslash) (rev p))),
      dirname = (\<lambda>p. rev (drop 1 (dropWhile (\<lambda>ch. ch \<noteq> bslash) (rev p)))),
      os_join = str_join [bslash],
      expanduser = (\<lambda>p. p), expandvars = (\<lambda>p. p),
      isdir = (\<lambda>p. False), glob = (\<lambda>pattern. []),
      sys_prefix = ''C:'' @ [bslash] @ ''conda'',
      sys_executable = ''C:'' @ [bslash] @ ''conda'' @ [bslash] @ ''python.exe'',
      cygpath = (\<lambda>joined. None), GetACP = 1252\<rparr>"

text \<open>Two Windows prefixes, the directories \<open>env\<close> and \<open>other\<close> at the root of drive C.\<close>

definition win_env :: string where
  "win_env = ''C:'' @ [bslash] @ ''env''"

definition win_other :: string where
  "win_other = ''C:'' @ [bslash] @ ''other''"

definition demo_context :: conda_context where
  "demo_context =
     \<lparr>ROOT_ENV_NAME = ''base'', root_prefix = ''/opt/conda'',
      conda_exe = ''/opt/conda/bin/conda'', changeps1 = True,
      env_prompt = (\<lambda>default_env prefix name. ''('' @ default_env @ '') ''),
      locate_prefix_by_name =
        (\<lambda>name. if name = ''dev'' then Some ''/opt/conda/envs/dev'' else None)\<rparr>"

text \<open>No environment active; no environment path at level 2; \<^verbatim>\<open>dev\<close> active at level 1.\<close>

definition level0_env :: "string \<rightharpoonup> string" where
  "level0_env = [''PATH'' \<mapsto> ''/usr/bin:/bin'', ''CONDA_SHLVL'' \<mapsto> '' 0 '']"

definition no_prefix_env :: "string \<rightharpoonup> string" where
  "no_prefix_env = [''PATH'' \<mapsto> ''/usr/bin:/bin'', ''CONDA_SHLVL'' \<mapsto> ''2'',
                    ''CONDA_PREFIX'' \<mapsto> []]"

definition dev_env :: "string \<rightharpoonup> string" where
  "dev_env = [''PATH'' \<mapsto> ''/opt/conda/envs/dev/bin:/usr/bin:/bin'', ''CONDA_SHLVL'' \<mapsto> ''1'',
              ''CONDA_PREFIX'' \<mapsto> ''/opt/conda/envs/dev'', ''CONDA_DEFAULT_ENV'' \<mapsto> ''dev'',
              ''CONDA_PROMPT_MODIFIER'' \<mapsto> ''(dev) '', ''PS1'' \<mapsto> ''(dev) $ '']"



text \<open>An instruction set, and the same with its variables inserted in another order.\<close>

definition demo_cmds :: cmds where
  "demo_cmds =
     \<lparr>unset_vars = [''CONDA_PREFIX_1'', ''CONDA_DEFAULT_ENV''],
      set_vars = [(''PS1'', PyStr ''(dev) $ '')],
      export_vars = [(''PATH'', PyStr ''/opt/conda/envs/dev/bin:/usr/bin''),
                     (''CONDA_SHLVL'', PyInt 1),
                     (''CONDA_PREFIX'', PyStr ''/opt/conda/envs/dev'')],
      deactivate_scripts = [''/old/z.sh'', ''/old/a.sh''],
      activate_scripts = [''/new/a.sh'', ''/new/z.sh'']\<rparr>"

definition demo_cmds_permuted :: cmds where
  "demo_cmds_permuted =
     \<lparr>unset_vars = [''CONDA_DEFAULT_ENV'', ''CONDA_PREFIX_1''],
      set_vars = [(''PS1'', PyStr ''(dev) $ '')],
      export_vars = [(''CONDA_PREFIX'', PyStr ''/opt/conda/envs/dev''),
                     (''PATH'', PyStr ''/opt/conda/envs/dev/bin:/usr/bin''),
                     (''CONDA_SHLVL'', PyInt 1)],
      deactivate_scripts = [''/old/z.sh'', ''/old/a.sh''],
      activate_scripts = [''/new/a.sh'', ''/new/z.sh'']\<rparr>"

text \<open>A result that is the exception \<^verbatim>\<open>EnvironmentLocationNotFound\<close>.\<close>

definition raises_not_found :: "error + 'a \<Rightarrow> bool" where
  "raises_not_found r = (case r of Inl (EnvironmentLocationNotFound q) \<Rightarrow> True | _ \<Rightarrow> False)"

text \<open>A configuration whose root prefix has no \<^verbatim>\<open>conda-meta\<close> directory on \<open>posix_host\<close>.\<close>

definition bare_context :: conda_context where
  "bare_context = demo_context\<lparr>root_prefix := ''/srv/conda'',
                                   conda_exe := ''/srv/conda/bin/conda''\<rparr>"

text \<open>
  A Windows host for the shells that convert paths. Its \<open>cygpath\<close> is the translation
  that the fallback of \<^verbatim>\<open>native_path_to_unix\<close> makes, on search paths whose entries are
  drive paths or begin with a slash already: in a drive path the backslashes become
  slashes, the colon goes, a slash is put in front and trailing slashes are dropped;
  the entries are then separated by colons.
\<close>

definition is_drive_path :: "string \<Rightarrow> bool" where
  "is_drive_path p \<longleftrightarrow>
     (case p of
        d # c # s # rest \<Rightarrow>
          ((CHR ''a'' \<le> d \<and> d \<le> CHR ''z'') \<or> (CHR ''A'' \<le> d \<and> d \<le> CHR ''Z''))
          \<and> c = CHR '':'' \<and> (s = bslash \<or> s = CHR ''/'')
      | _ \<Rightarrow> False)"

definition translate_drive_path :: "string \<Rightarrow> string" where
  "translate_drive_path p =
     (if is_drive_path p then
        (let found = str_replace ''//'' ''/''
                       (str_replace '':'' [] (str_replace [bslash] ''/'' p))
         in CHR ''/'' # rev (dropWhile (\<lambda>ch. ch = CHR ''/'') (rev found)))
      else p)"

definition fallback_cygpath :: "string \<Rightarrow> string option" where
  "fallback_cygpath joined =
     Some (str_join '':'' (map translate_drive_path (split_on (CHR '';'') joined)))"

definition win_unix_host :: host where
  "win_unix_host = win_host\<lparr>cygpath := fallback_cygpath\<rparr>"

text \<open>The Windows directories \<open>Windows\<close> and \<open>Tools\<close> at the root of drive C.\<close>

definition win_dir :: string where
  "win_dir = ''C:'' @ [bslash] @ ''Windows''"

definition win_tools :: string where
  "win_tools = ''C:'' @ [bslash] @ ''Tools''"

text \<open>No environment path, and a level that is not a number.\<close>

definition bad_level_env :: "string \<rightharpoonup> string" where
  "bad_level_env = [''PATH'' \<mapsto> ''/usr/bin:/bin'', ''CONDA_SHLVL'' \<mapsto> ''abc'']"

section \<open>Properties\<close>

subsection \<open>Sequencing, path comparison and the index search\<close>

lemma and_then_Inr [simp]: "and_then (Inr x) f = f x"
  by (simp add: and_then_def)

lemma and_then_Inl [simp]: "and_then (Inl e) f = Inl e"
  by (simp add: and_then_def)

lemma and_then_eq_Inr:
  "and_then m f = Inr y \<longleftrightarrow> (\<exists>x. m = Inr x \<and> f x = Inr y)"
  by (cases m) simp_all

lemma paths_equal_refl [simp]: "paths_equal h p p"
  by (simp add: paths_equal_def)

lemma paths_equal_sym: "paths_equal h p q \<Longrightarrow> paths_equal h q p"
  by (auto simp: paths_equal_def split: if_splits)

lemma paths_equal_trans: "paths_equal h p q \<Longrightarrow> paths_equal h q r \<Longrightarrow> paths_equal h p r"
  by (auto simp: paths_equal_def split: if_splits)

lemma get_path_dirs2_nonempty [simp]: "get_path_dirs2 h a p \<noteq> []"
  by (simp add: get_path_dirs2_def)

lemma get_path_dirs2_posix: "\<not> on_win h \<Longrightarrow> get_path_dirs2 h a p = [str_join (sep a) [p, ''bin'']]"
  by (simp add: get_path_dirs2_def)

lemma last_dir_apart_posix: "\<not> on_win h \<Longrightarrow> last_dir_apart h a p"
  by (simp add: last_dir_apart_def get_path_dirs2_def)

lemma index_of_path_None: "index_of_path h xs t = None \<longleftrightarrow> (\<forall>x \<in> set xs. \<not> paths_equal h x t)"
  by (induction xs) auto

lemma index_of_path_append_Some:
  "index_of_path h xs t = Some i \<Longrightarrow> index_of_path h (xs @ ys) t = Some i"
  by (induction xs arbitrary: i) (auto split: if_splits)

lemma index_of_path_append_None:
  "index_of_path h xs t = None \<Longrightarrow>
     index_of_path h (xs @ ys) t = map_option (\<lambda>i. length xs + i) (index_of_path h ys t)"
proof (induction xs)
  case Nil
  then show ?case by (cases "index_of_path h ys t") simp_all
next
  case (Cons x xs)
  then show ?case by (cases "index_of_path h ys t") (auto split: if_splits)
qed


lemma index_of_path_hd_dirs:
  "xs \<noteq> [] \<Longrightarrow> index_of_path h (xs @ rest) (hd xs) = Some 0"
  by (cases xs) auto

lemma index_of_path_last_dirs:
  assumes "xs \<noteq> []" "\<forall>d \<in> set (butlast xs). \<not> paths_equal h d (last xs)"
  shows "index_of_path h (xs @ rest) (last xs) = Some (length xs - 1)"
proof -
  have xs: "xs = butlast xs @ [last xs]" using assms(1) by simp
  have "index_of_path h (butlast xs) (last xs) = None"
    using assms(2) by (simp add: index_of_path_None)
  then have "index_of_path h (butlast xs @ ([last xs] @ rest)) (last xs) = Some (length (butlast xs))"
    by (simp add: index_of_path_append_None)
  then show ?thesis using xs by (metis append.assoc length_butlast)
qed

lemma remove_old_prefix_block:
  assumes "last_dir_apart h a p"
  shows "remove_old_prefix h a (Some p) (get_path_dirs2 h a p @ rest) = Inr (0, rest)"
  using assms
  by (simp add: remove_old_prefix_def Let_def index_of_path_hd_dirs index_of_path_last_dirs
      last_dir_apart_def delete_slice_def)





lemma conversion_opt_native:
  "\<not> on_win h \<or> path_conversion a = PathIdentity \<Longrightarrow> path_conversion_opt h a p = Inr p"
  by (auto simp: path_conversion_opt_def native_path_to_unix_opt_def path_identity_opt_def
      split: conversion.splits)

lemma in_shell_form_native:
  "\<not> on_win h \<or> path_conversion a = PathIdentity \<Longrightarrow> in_shell_form h a paths"
  by (auto simp: in_shell_form_def path_conversion_seq_def native_path_to_unix_seq_def
      path_identity_seq_def split: conversion.splits)

lemma path_conversion_opt_None [simp]: "path_conversion_opt h a None = Inr None"
  by (simp add: path_conversion_opt_def native_path_to_unix_opt_def path_identity_opt_def
      split: conversion.splits)


subsection \<open>Reading the level\<close>

lemma all_dropWhile: "(\<forall>x \<in> set (dropWhile P s). P x) \<longleftrightarrow> (\<forall>x \<in> set s. P x)"
  by (induction s) auto

lemma py_strip_empty_iff: "py_strip s = [] \<longleftrightarrow> (\<forall>ch \<in> set s. is_space ch)"
  by (simp add: py_strip_def dropWhile_eq_Nil_conv all_dropWhile)

lemma py_int_zero: "py_int ''0'' = Inr 0"
  by (simp add: py_int_def py_strip_def is_space_def is_digit_def digit_val_def)

lemma read_conda_shlvl_absent: "environ a ''CONDA_SHLVL'' = None \<Longrightarrow> read_conda_shlvl a = Inr 0"
  by (simp add: read_conda_shlvl_def py_strip_def)

lemma read_conda_shlvl_blank:
  "environ a ''CONDA_SHLVL'' = Some s \<Longrightarrow> py_strip s = [] \<Longrightarrow> read_conda_shlvl a = Inr 0"
  by (simp add: read_conda_shlvl_def)

lemma read_conda_shlvl_zero:
  "environ a ''CONDA_SHLVL'' = Some s \<Longrightarrow> py_strip s = ''0'' \<Longrightarrow> read_conda_shlvl a = Inr 0"
  by (simp add: read_conda_shlvl_def py_int_zero)

lemma build_deactivate_inactive:
  "read_conda_shlvl a = Inr n \<Longrightarrow> \<not> truthy (environ a ''CONDA_PREFIX'') \<or> n < 1 \<Longrightarrow>
     build_deactivate h c a = Inr no_cmds"
  by (simp add: build_deactivate_def)

lemma build_reactivate_inactive:
  "read_conda_shlvl a = Inr n \<Longrightarrow> \<not> truthy (environ a ''CONDA_PREFIX'') \<or> n < 1 \<Longrightarrow>
     build_reactivate h c a = Inr no_cmds"
  by (simp add: build_reactivate_def)



subsection \<open>Sorting a permuted list, and filtering arguments\<close>

lemma filter_key_singleton:
  "distinct (map f xs) \<Longrightarrow> k \<in> set xs \<Longrightarrow> filter (\<lambda>x. f k = f x) xs = [k]"
proof (induction xs)
  case Nil
  then show ?case by simp
next
  case (Cons x xs)
  show ?case
  proof (cases "k = x")
    case True
    have "filter (\<lambda>y. f x = f y) xs = []"
      using Cons.prems(1) by (auto simp: filter_empty_conv)
    with True show ?thesis by simp
  next
    case False
    with Cons.prems have kxs: "k \<in> set xs" by auto
    then have "f k \<in> f ` set xs" by blast
    with Cons.prems(1) have "f k \<noteq> f x" by auto
    with Cons kxs show ?thesis by simp
  qed
qed

lemma sort_key_permuted:
  assumes "mset ys = mset xs" "distinct (map f xs)"
  shows "sort_key f ys = sort_key f xs"
proof (rule properties_for_sort_key)
  show "mset (sort_key f xs) = mset ys" using assms(1) by simp
  show "sorted (map f (sort_key f xs))" by simp
  have dy: "distinct (map f ys)"
  proof -
    have "mset (map f ys) = mset (map f xs)" using assms(1) by simp
    then show ?thesis using assms(2) by (metis mset_eq_imp_distinct_iff)
  qed
  fix k assume "k \<in> set (sort_key f xs)"
  then have kx: "k \<in> set xs" by simp
  then have ky: "k \<in> set ys" using assms(1) by (metis mset_eq_setD)
  have "filter (\<lambda>x. f k = f x) (sort_key f xs) = [k]"
    using assms(2) kx by (intro filter_key_singleton) (simp_all add: distinct_map)
  moreover have "filter (\<lambda>x. f k = f x) ys = [k]"
    using dy ky by (rule filter_key_singleton)
  ultimately show "filter (\<lambda>x. f k = f x) (sort_key f xs) = filter (\<lambda>x. f k = f x) ys" by simp
qed

lemma sort_permuted: "mset ys = mset xs \<Longrightarrow> sort ys = sort xs"
  by (rule properties_for_sort) simp_all

lemma flags_only_filter:
  assumes "\<forall>x \<in> set rest. x = [] \<or> x = ''activate'' \<or> x = ''--stack''"
  shows "filter (\<lambda>arg. arg \<noteq> [] \<and> arg \<noteq> ''activate'')
           (filter (\<lambda>arg. arg \<notin> set [''-h'', ''--help'', ''/?'']) rest)
         = replicate (count_list rest ''--stack'') ''--stack''
       \<and> length (filter (\<lambda>arg. arg \<notin> set [''-h'', ''--help'', ''/?'']) rest) = length rest"
  using assms by (induction rest) auto

subsection \<open>Where the environment-location error can come from\<close>

lemma nf_Inr [simp]: "\<not> raises_not_found (Inr x)"
  by (simp add: raises_not_found_def)

lemma nf_Inl [simp]: "raises_not_found (Inl e) \<longleftrightarrow> (\<exists>q. e = EnvironmentLocationNotFound q)"
  by (cases e) (simp_all add: raises_not_found_def)

lemma nf_and_then:
  "\<not> raises_not_found m \<Longrightarrow> (\<And>x. \<not> raises_not_found (f x)) \<Longrightarrow> \<not> raises_not_found (and_then m f)"
  by (cases m) simp_all

lemma nf_and_then_iff:
  "raises_not_found (and_then m f)
     \<longleftrightarrow> raises_not_found m \<or> (\<exists>x. m = Inr x \<and> raises_not_found (f x))"
  by (cases m) simp_all

lemma nf_conv_opt [simp]: "\<not> raises_not_found (path_conversion_opt h a p)"
  by (auto simp: path_conversion_opt_def native_path_to_unix_opt_def cygpath_final_def
      and_then_def split: conversion.splits option.splits list.splits)

lemma nf_conv_seq [simp]: "\<not> raises_not_found (path_conversion_seq h a p)"
  by (auto simp: path_conversion_seq_def native_path_to_unix_seq_def cygpath_final_def
      split: conversion.splits option.splits)

lemma nf_starting_path [simp]: "\<not> raises_not_found (get_starting_path_list h a)"
  by (auto simp: get_starting_path_list_def Let_def split: option.splits list.splits)

lemma nf_starting_list [simp]: "\<not> raises_not_found (starting_list h a ds)"
  by (cases ds) (simp_all add: starting_list_def nf_and_then_iff)

lemma nf_remove_old [simp]: "\<not> raises_not_found (remove_old_prefix h a p xs)"
  by (auto simp: remove_old_prefix_def Let_def split: option.splits)

lemma nf_replace [simp]: "\<not> raises_not_found (replace_prefix_in_path h a p q ds)"
  unfolding replace_prefix_in_path_def
  by (intro nf_and_then) (simp_all split: prod.splits)

lemma nf_remove [simp]: "\<not> raises_not_found (remove_prefix_from_path h a p ds)"
  by (simp add: remove_prefix_from_path_def)

lemma nf_add [simp]: "\<not> raises_not_found (add_prefix_to_path h a p ds)"
  unfolding add_prefix_to_path_def
  by (intro nf_and_then) (simp_all split: option.splits)

lemma nf_py_int [simp]: "\<not> raises_not_found (py_int s)"
  by (simp add: py_int_def Let_def split: option.splits)

lemma nf_shlvl [simp]: "\<not> raises_not_found (read_conda_shlvl a)"
  by (simp add: read_conda_shlvl_def Let_def)

lemma nf_scripts [simp]:
  "\<not> raises_not_found (get_activate_scripts h a p)"
  "\<not> raises_not_found (get_deactivate_scripts h a p)"
  by (simp_all add: get_activate_scripts_def get_deactivate_scripts_def split: option.splits)

lemma nf_default_env [simp]: "\<not> raises_not_found (default_env h c p)"
  by (simp add: default_env_def split: option.splits)

lemma nf_prompt [simp]: "\<not> raises_not_found (prompt_modifier h c p d)"
  by (simp add: prompt_modifier_def split: option.splits)

lemma nf_if:
  "(P \<Longrightarrow> \<not> raises_not_found x) \<Longrightarrow> (\<not> P \<Longrightarrow> \<not> raises_not_found y)
     \<Longrightarrow> \<not> raises_not_found (if P then x else y)"
  by simp

lemma nf_reactivate [simp]: "\<not> raises_not_found (build_reactivate h c a)"
  unfolding build_reactivate_def Let_def
  by (intro nf_and_then nf_if) simp_all

lemma nf_deactivate [simp]: "\<not> raises_not_found (build_deactivate h c a)"
  by (auto simp: build_deactivate_def Let_def nf_and_then_iff split: prod.splits)

lemma build_activate_stack_not_found:
  "raises_not_found (build_activate_stack h c a target stk)
     \<longleftrightarrow> raises_not_found (resolve_prefix h c target)"
proof (cases "resolve_prefix h c target")
  case (Inl e)
  then show ?thesis by (simp add: build_activate_stack_def)
next
  case (Inr prefix)
  have "\<not> raises_not_found (build_activate_stack h c a target stk)"
    unfolding build_activate_stack_def Inr and_then_Inr Let_def
    by (intro nf_and_then nf_if) simp_all
  with Inr show ?thesis by simp
qed

lemma resolve_prefix_not_found:
  "raises_not_found (resolve_prefix h c target)
     \<longleftrightarrow> list_ex (\<lambda>ch. ch = bslash \<or> ch = CHR ''/'') target
         \<and> \<not> isdir h (os_join h [expand h target, ''conda-meta''])"
  by (simp add: resolve_prefix_def Let_def split: option.splits)

subsection \<open>The editor on a POSIX host and in the shell's form\<close>



lemma roundtrip_general:
  assumes "path_conversion_opt h a (Some E) = Inr (Some E')"
      and "in_shell_form h a P"
      and "in_shell_form h a (get_path_dirs2 h a E' @ P)"
      and "last_dir_apart h a E'"
  shows "add_prefix_to_path h a (Some E) (Some P) = Inr (get_path_dirs2 h a E' @ P)
       \<and> remove_prefix_from_path h a (Some E) (Some (get_path_dirs2 h a E' @ P)) = Inr P"
  using assms remove_old_prefix_block [of h a E' P]
  by (simp add: add_prefix_to_path_def remove_prefix_from_path_def replace_prefix_in_path_def
      starting_list_def in_shell_form_def insert_slice_def)

lemma positional_general:
  assumes "path_conversion_opt h a (Some A) = Inr (Some A')"
      and "path_conversion_opt h a (Some B) = Inr (Some B')"
      and "in_shell_form h a (get_path_dirs2 h a A' @ rest)"
      and "last_dir_apart h a A'"
  shows "replace_prefix_in_path h a (Some A) (Some B) (Some (get_path_dirs2 h a A' @ rest))
           = Inr (get_path_dirs2 h a B' @ rest)"
  using assms remove_old_prefix_block [of h a A' rest]
  by (simp add: replace_prefix_in_path_def starting_list_def in_shell_form_def insert_slice_def)

lemma dirs_same_length: "length (get_path_dirs2 h a B) = length (get_path_dirs2 h a A)"
  by (simp add: get_path_dirs2_def)


subsection \<open>Levels written in decimal digits\<close>

lemma parse_digits_all:
  "list_all is_digit s \<Longrightarrow> \<exists>n. parse_digits acc s = Some n"
  by (induction acc s rule: parse_digits.induct) auto

lemma is_digit_not_space: "is_digit ch \<Longrightarrow> \<not> is_space ch"
  by (auto simp: is_digit_def is_space_def less_eq_char_def)

lemma py_strip_digits:
  assumes "list_all is_digit s"
  shows "py_strip s = s"
proof (cases s)
  case Nil
  then show ?thesis by (simp add: py_strip_def)
next
  case (Cons x xs)
  then have 1: "dropWhile is_space s = s"
    using assms by (simp add: is_digit_not_space)
  from Cons have "rev s \<noteq> []" by simp
  then obtain y ys where r: "rev s = y # ys" by (cases "rev s") auto
  then have "y \<in> set s" by (metis list.set_intros(1) set_rev)
  with assms have "is_digit y" by (simp add: list_all_iff)
  with r have "dropWhile is_space (rev s) = rev s" by (simp add: is_digit_not_space)
  with 1 show ?thesis by (simp add: py_strip_def)
qed

lemma py_int_digits:
  assumes "s \<noteq> []" "list_all is_digit s"
  shows "\<exists>n. py_int s = Inr n"
proof -
  obtain x xs where s: "s = x # xs" using assms(1) by (cases s) auto
  with assms(2) have x: "is_digit x" by simp
  then have "x \<noteq> CHR ''-''" "x \<noteq> CHR ''+''"
    by (auto simp: is_digit_def less_eq_char_def)
  moreover obtain n where "parse_digits 0 s = Some n"
    using parse_digits_all [OF assms(2)] by blast
  ultimately show ?thesis
    using s x py_strip_digits [OF assms(2)] by (simp add: py_int_def Let_def)
qed

lemma read_conda_shlvl_digits:
  assumes "environ a ''CONDA_SHLVL'' = Some s" "s \<noteq> []" "list_all is_digit s"
  shows "\<exists>n. read_conda_shlvl a = Inr n"
  using assms py_int_digits [OF assms(2,3)] py_strip_digits [OF assms(3)]
  by (simp add: read_conda_shlvl_def)

subsection \<open>Unfolding the examples\<close>

lemmas host_simps = posix_host_def win_host_def win_env_def win_other_def win_normcase_def
  ascii_lower_def posix_basename_def posix_dirname_def demo_context_def
lemmas shell_simps = PosixActivator_def CmdExeActivator_def
lemmas conv_simps = path_conversion_opt_def path_conversion_seq_def native_path_to_unix_opt_def
  native_path_to_unix_seq_def path_identity_opt_def path_identity_seq_def in_shell_form_def
lemmas level_simps = read_conda_shlvl_def py_int_def py_strip_def is_space_def is_digit_def
  digit_val_def

section \<open>The claims\<close>

subsection \<open>The search-path editor\<close>

text \<open>
  Claim C1, as the code has it. Activating an environment \<open>E\<close> at level 0 prepends its
  executable directories to the starting list \<open>P\<close>, and removing \<open>E\<close> from that result
  gives back exactly \<open>P\<close>: on a POSIX host for every \<open>E\<close> and \<open>P\<close>; on any host when the
  shell's path conversion leaves \<open>P\<close> and the activated list unchanged and the host tells
  the last directory of \<open>E'\<close> from the earlier ones, \<open>E'\<close> being \<open>E\<close> as the shell's
  conversion writes it.
\<close>

theorem activate_deactivate_roundtrip:
  "(path_conversion_opt h a (Some E) = Inr (Some E')
      \<and> in_shell_form h a P \<and> in_shell_form h a (get_path_dirs2 h a E' @ P)
      \<and> last_dir_apart h a E'
    \<longrightarrow> add_prefix_to_path h a (Some E) (Some P) = Inr (get_path_dirs2 h a E' @ P)
      \<and> remove_prefix_from_path h a (Some E) (Some (get_path_dirs2 h a E' @ P)) = Inr P)
 \<and> (\<not> on_win h
    \<longrightarrow> add_prefix_to_path h a (Some E) (Some P) = Inr (get_path_dirs2 h a E @ P)
      \<and> remove_prefix_from_path h a (Some E) (Some (get_path_dirs2 h a E @ P)) = Inr P)"
proof (intro conjI impI)
  assume "path_conversion_opt h a (Some E) = Inr (Some E')
      \<and> in_shell_form h a P \<and> in_shell_form h a (get_path_dirs2 h a E' @ P)
      \<and> last_dir_apart h a E'"
  then show "add_prefix_to_path h a (Some E) (Some P) = Inr (get_path_dirs2 h a E' @ P)"
    and "remove_prefix_from_path h a (Some E) (Some (get_path_dirs2 h a E' @ P)) = Inr P"
    using roundtrip_general [of h a E E' P] by blast+
next
  assume "\<not> on_win h"
  then show "add_prefix_to_path h a (Some E) (Some P) = Inr (get_path_dirs2 h a E @ P)"
    and "remove_prefix_from_path h a (Some E) (Some (get_path_dirs2 h a E @ P)) = Inr P"
    using roundtrip_general [of h a E E P]
    by (simp_all add: conversion_opt_native in_shell_form_native last_dir_apart_posix)
qed

theorem activate_deactivate_roundtrip_witness:
  "add_prefix_to_path win_host (CmdExeActivator Map.empty) (Some win_env) (Some [win_dir])
     = Inr (get_path_dirs2 win_host (CmdExeActivator Map.empty) win_env @ [win_dir])
   \<and> remove_prefix_from_path win_host (CmdExeActivator Map.empty) (Some win_env)
       (Some (get_path_dirs2 win_host (CmdExeActivator Map.empty) win_env @ [win_dir]))
     = Inr [win_dir]
   \<and> add_prefix_to_path posix_host (PosixActivator Map.empty) (Some ''/opt/conda/envs/dev'')
       (Some [''/usr/bin'', ''/bin''])
     = Inr [''/opt/conda/envs/dev/bin'', ''/usr/bin'', ''/bin'']
   \<and> remove_prefix_from_path posix_host (PosixActivator Map.empty) (Some ''/opt/conda/envs/dev'')
       (Some [''/opt/conda/envs/dev/bin'', ''/usr/bin'', ''/bin''])
     = Inr [''/usr/bin'', ''/bin'']"
proof -
  let ?a = "CmdExeActivator Map.empty"
  have 1: "path_conversion_opt win_host ?a (Some win_env) = Inr (Some win_env)"
    by (simp add: conv_simps shell_simps)
  have 2: "in_shell_form win_host ?a [win_dir]"
    by (simp add: conv_simps shell_simps)
  have 3: "in_shell_form win_host ?a (get_path_dirs2 win_host ?a win_env @ [win_dir])"
    by (simp add: conv_simps shell_simps)
  have 4: "last_dir_apart win_host ?a win_env"
    by (simp add: last_dir_apart_def get_path_dirs2_def paths_equal_def host_simps shell_simps)
  have 5: "\<not> on_win posix_host"
    by (simp add: host_simps)
  have 6: "get_path_dirs2 posix_host (PosixActivator Map.empty) ''/opt/conda/envs/dev''
           = [''/opt/conda/envs/dev/bin'']"
    by (simp add: get_path_dirs2_def host_simps shell_simps)
  show ?thesis
    using activate_deactivate_roundtrip [of win_host ?a win_env win_env "[win_dir]"]
      activate_deactivate_roundtrip [of posix_host "PosixActivator Map.empty"
        "''/opt/conda/envs/dev''" "''/opt/conda/envs/dev''" "[''/usr/bin'', ''/bin'']"]
      1 2 3 4 5 6
    by simp
qed

text \<open>
  The claim is for every list. On Windows, a shell that converts paths returns the
  converted list: the entry \<open>win_dir\<close> of the starting list comes back in another form.
\<close>

theorem roundtrip_converts_counterexample:
  "add_prefix_to_path win_unix_host (PosixActivator Map.empty) (Some win_env) (Some [win_dir])
     = Inr [''/C/env'', ''/C/env/Library/mingw-w64/bin'', ''/C/env/Library/usr/bin'',
            ''/C/env/Library/bin'', ''/C/env/Scripts'', ''/C/env/bin'', ''/C/Windows'']
   \<and> remove_prefix_from_path win_unix_host (PosixActivator Map.empty) (Some win_env)
       (Some [''/C/env'', ''/C/env/Library/mingw-w64/bin'', ''/C/env/Library/usr/bin'',
              ''/C/env/Library/bin'', ''/C/env/Scripts'', ''/C/env/bin'', ''/C/Windows''])
     = Inr [''/C/Windows'']
   \<and> [''/C/Windows''] \<noteq> [win_dir]"
  by code_simp

text \<open>
  Claim C2, as the code has it. On a list that starts with the executable directories of
  \<open>A\<close>, replacing \<open>A\<close> by \<open>B\<close> puts the directories of \<open>B\<close>, as many, in the index
  range that those of \<open>A\<close> leave, and keeps every later entry (\<open>Z\<close>, \<open>W\<close>, or any
  \<open>rest\<close>) in value and order: on a POSIX host for every \<open>A\<close>, \<open>B\<close> and \<open>rest\<close>; on
  any host when the shell's path conversion leaves the list unchanged and the host tells
  the last directory of \<open>A'\<close> from the earlier ones, \<open>A'\<close> and \<open>B'\<close> being the prefixes
  as the shell's conversion writes them.
\<close>

theorem replace_is_positional:
  "(path_conversion_opt h a (Some A) = Inr (Some A')
      \<and> path_conversion_opt h a (Some B) = Inr (Some B')
      \<and> in_shell_form h a (get_path_dirs2 h a A' @ rest)
      \<and> last_dir_apart h a A'
    \<longrightarrow> replace_prefix_in_path h a (Some A) (Some B) (Some (get_path_dirs2 h a A' @ rest))
          = Inr (get_path_dirs2 h a B' @ rest)
      \<and> length (get_path_dirs2 h a B') = length (get_path_dirs2 h a A'))
 \<and> (\<not> on_win h
    \<longrightarrow> replace_prefix_in_path h a (Some A) (Some B) (Some (get_path_dirs2 h a A @ rest))
          = Inr (get_path_dirs2 h a B @ rest)
      \<and> length (get_path_dirs2 h a B) = length (get_path_dirs2 h a A))"
proof (intro conjI impI)
  assume "path_conversion_opt h a (Some A) = Inr (Some A')
      \<and> path_conversion_opt h a (Some B) = Inr (Some B')
      \<and> in_shell_form h a (get_path_dirs2 h a A' @ rest)
      \<and> last_dir_apart h a A'"
  then show "replace_prefix_in_path h a (Some A) (Some B) (Some (get_path_dirs2 h a A' @ rest))
          = Inr (get_path_dirs2 h a B' @ rest)"
    using positional_general [of h a A A' B B' rest] by blast
next
  assume "\<not> on_win h"
  then show "replace_prefix_in_path h a (Some A) (Some B) (Some (get_path_dirs2 h a A @ rest))
          = Inr (get_path_dirs2 h a B @ rest)"
    using positional_general [of h a A A B B rest]
    by (simp add: conversion_opt_native in_shell_form_native last_dir_apart_posix)
qed (rule dirs_same_length)+

theorem replace_is_positional_witness:
  "replace_prefix_in_path win_host (CmdExeActivator Map.empty) (Some win_env) (Some win_other)
       (Some (get_path_dirs2 win_host (CmdExeActivator Map.empty) win_env @ [win_dir, win_tools]))
     = Inr (get_path_dirs2 win_host (CmdExeActivator Map.empty) win_other @ [win_dir, win_tools])
   \<and> length (get_path_dirs2 win_host (CmdExeActivator Map.empty) win_other) = 6
   \<and> replace_prefix_in_path posix_host (PosixActivator Map.empty) (Some ''/env/A'') (Some ''/env/B'')
       (Some [''/env/A/bin'', ''Z'', ''W''])
     = Inr [''/env/B/bin'', ''Z'', ''W'']"
proof -
  let ?a = "CmdExeActivator Map.empty"
  have 1: "path_conversion_opt win_host ?a (Some win_env) = Inr (Some win_env)"
    by (simp add: conv_simps shell_simps)
  have 2: "path_conversion_opt win_host ?a (Some win_other) = Inr (Some win_other)"
    by (simp add: conv_simps shell_simps)
  have 3: "in_shell_form win_host ?a (get_path_dirs2 win_host ?a win_env @ [win_dir, win_tools])"
    by (simp add: conv_simps shell_simps)
  have 4: "last_dir_apart win_host ?a win_env"
    by (simp add: last_dir_apart_def get_path_dirs2_def paths_equal_def host_simps shell_simps)
  have 5: "length (get_path_dirs2 win_host ?a win_env) = 6"
    by (simp add: get_path_dirs2_def host_simps)
  have 6: "\<not> on_win posix_host"
    by (simp add: host_simps)
  have 7: "get_path_dirs2 posix_host (PosixActivator Map.empty) ''/env/A'' = [''/env/A/bin'']"
    and 8: "get_path_dirs2 posix_host (PosixActivator Map.empty) ''/env/B'' = [''/env/B/bin'']"
    by (simp_all add: get_path_dirs2_def host_simps shell_simps)
  show ?thesis
    using replace_is_positional [of win_host ?a win_env win_env win_other win_other
        "[win_dir, win_tools]"]
      replace_is_positional [of posix_host "PosixActivator Map.empty" "''/env/A''" "''/env/A''"
        "''/env/B''" "''/env/B''" "[''Z'', ''W'']"]
      1 2 3 4 5 6 7 8
    by simp
qed

text \<open>
  The claim is for every list of that form. On Windows, a shell that converts paths
  converts the entries outside the block too: they do not keep their value.
\<close>

theorem replace_converts_counterexample:
  "get_path_dirs2 win_unix_host (PosixActivator Map.empty) ''/C/env''
     = [''/C/env'', ''/C/env/Library/mingw-w64/bin'', ''/C/env/Library/usr/bin'',
        ''/C/env/Library/bin'', ''/C/env/Scripts'', ''/C/env/bin'']
   \<and> path_conversion_opt win_unix_host (PosixActivator Map.empty) (Some win_env)
     = Inr (Some ''/C/env'')
   \<and> replace_prefix_in_path win_unix_host (PosixActivator Map.empty) (Some win_env)
       (Some win_other)
       (Some ([''/C/env'', ''/C/env/Library/mingw-w64/bin'', ''/C/env/Library/usr/bin'',
               ''/C/env/Library/bin'', ''/C/env/Scripts'', ''/C/env/bin'']
              @ [win_dir, win_tools]))
     = Inr ([''/C/other'', ''/C/other/Library/mingw-w64/bin'', ''/C/other/Library/usr/bin'',
             ''/C/other/Library/bin'', ''/C/other/Scripts'', ''/C/other/bin'']
            @ [''/C/Windows'', ''/C/Tools''])
   \<and> [''/C/Windows'', ''/C/Tools''] \<noteq> [win_dir, win_tools]"
  by code_simp

text \<open>
  Claim C3, as the code has it. The removal stage searches the first expected directory
  of \<open>E\<close> in the list \<open>P\<close>. When no entry equals it, nothing is deleted and index 0 is
  the insertion point. When it is first found at index \<open>i\<close>, the last expected directory
  is asserted to be present somewhere in the list, and \<open>j\<close> is its first match; when
  \<open>i \<le> j\<close>, exactly the entries from \<open>i\<close> to \<open>j\<close> are deleted, the others keep their
  value and order, and \<open>i\<close> is the insertion point.
\<close>

theorem removal_stage:
  fixes h a E P
  defines "D \<equiv> get_path_dirs2 h a E"
  shows "(index_of_path h P (hd D) = None \<longrightarrow> remove_old_prefix h a (Some E) P = Inr (0, P))
       \<and> (\<forall>i. index_of_path h P (hd D) = Some i \<longrightarrow>
            (index_of_path h P (last D) = None \<longrightarrow>
               remove_old_prefix h a (Some E) P = Inl AssertionError)
          \<and> (\<forall>j. index_of_path h P (last D) = Some j \<and> i \<le> j \<longrightarrow>
               remove_old_prefix h a (Some E) P = Inr (i, take i P @ drop (Suc j) P)))"
  by (auto simp: D_def remove_old_prefix_def Let_def delete_slice_def max_def)

theorem removal_stage_witness:
  "remove_old_prefix win_host (CmdExeActivator Map.empty) (Some win_env)
     ([''X''] @ get_path_dirs2 win_host (CmdExeActivator Map.empty) win_env @ [''Y''])
   = Inr (1, [''X'', ''Y''])
   \<and> remove_old_prefix win_host (CmdExeActivator Map.empty) (Some win_env) [''X'', win_env]
   = Inl AssertionError
   \<and> remove_old_prefix win_host (CmdExeActivator Map.empty) (Some win_env) [''X'', ''Y'']
   = Inr (0, [''X'', ''Y''])"
proof -
  let ?a = "CmdExeActivator Map.empty"
  let ?D = "get_path_dirs2 win_host ?a win_env"
  let ?P = "[''X''] @ ?D @ [''Y'']"
  have 1: "index_of_path win_host ?P (hd ?D) = Some 1"
    by (simp add: get_path_dirs2_def paths_equal_def host_simps shell_simps)
  have 2: "index_of_path win_host ?P (last ?D) = Some 6"
    by (simp add: get_path_dirs2_def paths_equal_def host_simps shell_simps)
  have 3: "index_of_path win_host [''X'', win_env] (hd ?D) = Some 1"
    by (simp add: get_path_dirs2_def paths_equal_def host_simps shell_simps)
  have 4: "index_of_path win_host [''X'', win_env] (last ?D) = None"
    by (simp add: get_path_dirs2_def paths_equal_def host_simps shell_simps)
  have 5: "index_of_path win_host [''X'', ''Y''] (hd ?D) = None"
    by (simp add: get_path_dirs2_def paths_equal_def host_simps shell_simps)
  have "remove_old_prefix win_host ?a (Some win_env) ?P = Inr (1, take 1 ?P @ drop (Suc 6) ?P)"
    using removal_stage [of win_host ?P ?a win_env] 1 2 by simp
  moreover have "remove_old_prefix win_host ?a (Some win_env) [''X'', win_env] = Inl AssertionError"
    using removal_stage [of win_host "[''X'', win_env]" ?a win_env] 3 4 by simp
  moreover have "remove_old_prefix win_host ?a (Some win_env) [''X'', ''Y''] = Inr (0, [''X'', ''Y''])"
    using removal_stage [of win_host "[''X'', ''Y'']" ?a win_env] 5 by simp
  ultimately show ?thesis by (simp add: get_path_dirs2_def host_simps)
qed

text \<open>
  The claim says that the last expected directory is asserted to be present at or after
  \<open>i\<close>. On the Windows list below the first directory is found at index 1 and the last one
  only at index 0: the assertion passes and nothing is deleted.
\<close>

theorem removal_asserts_order_counterexample:
  "index_of_path win_host [win_env @ [bslash] @ ''bin'', win_env]
       (hd (get_path_dirs2 win_host (CmdExeActivator Map.empty) win_env)) = Some 1
   \<and> index_of_path win_host [win_env @ [bslash] @ ''bin'', win_env]
       (last (get_path_dirs2 win_host (CmdExeActivator Map.empty) win_env)) = Some 0
   \<and> \<not> paths_equal win_host ([win_env @ [bslash] @ ''bin'', win_env] ! 1)
       (last (get_path_dirs2 win_host (CmdExeActivator Map.empty) win_env))
   \<and> remove_old_prefix win_host (CmdExeActivator Map.empty) (Some win_env)
         [win_env @ [bslash] @ ''bin'', win_env]
       = Inr (1, [win_env @ [bslash] @ ''bin'', win_env])"
  by (simp add: get_path_dirs2_def paths_equal_def remove_old_prefix_def delete_slice_def
      host_simps shell_simps)

subsection \<open>The builders\<close>

text \<open>
  Claim C4. When the activation level is 0, that is when \<^verbatim>\<open>CONDA_SHLVL\<close> is absent,
  blank or \<^verbatim>\<open>0\<close>, \<^verbatim>\<open>build_deactivate\<close> returns the empty instruction set: nothing to
  unset, set or export, and no script to run.
\<close>

theorem deactivate_at_level_zero:
  assumes "environ a ''CONDA_SHLVL'' = None
         \<or> (\<exists>s. environ a ''CONDA_SHLVL'' = Some s \<and> (py_strip s = [] \<or> py_strip s = ''0''))"
  shows "read_conda_shlvl a = Inr 0
       \<and> build_deactivate h c a =
           Inr \<lparr>unset_vars = [], set_vars = [], export_vars = [],
                deactivate_scripts = [], activate_scripts = []\<rparr>"
proof -
  from assms have lvl: "read_conda_shlvl a = Inr 0"
    by (auto simp: read_conda_shlvl_absent read_conda_shlvl_blank read_conda_shlvl_zero)
  then have "build_deactivate h c a = Inr no_cmds"
    by (rule build_deactivate_inactive) simp
  with lvl show ?thesis by (simp add: no_cmds_def)
qed

theorem deactivate_at_level_zero_witness:
  "build_deactivate posix_host demo_context (PosixActivator level0_env) =
     Inr \<lparr>unset_vars = [], set_vars = [], export_vars = [],
          deactivate_scripts = [], activate_scripts = []\<rparr>"
proof -
  have "environ (PosixActivator level0_env) ''CONDA_SHLVL'' = Some '' 0 ''
        \<and> py_strip '' 0 '' = ''0''"
    by (simp add: PosixActivator_def level0_env_def py_strip_def is_space_def)
  then have "environ (PosixActivator level0_env) ''CONDA_SHLVL'' = None
         \<or> (\<exists>s. environ (PosixActivator level0_env) ''CONDA_SHLVL'' = Some s
                \<and> (py_strip s = [] \<or> py_strip s = ''0''))"
    by blast
  from deactivate_at_level_zero [OF this] show ?thesis by simp
qed

text \<open>
  Claim C6. When the level \<open>L\<close> is positive and the target resolves to the prefix that
  \<^verbatim>\<open>CONDA_PREFIX\<close> holds, \<^verbatim>\<open>build_activate\<close> and \<^verbatim>\<open>build_stack\<close> return what
  \<^verbatim>\<open>build_reactivate\<close> returns: a refresh at level \<open>L\<close>, not a push to \<open>L + 1\<close>.
\<close>

theorem reenter_is_reactivate:
  assumes "resolve_prefix h c target = Inr p"
      and "environ a ''CONDA_PREFIX'' = Some p"
      and "read_conda_shlvl a = Inr L"
      and "L > 0"
  shows "build_activate h c a target = build_reactivate h c a
       \<and> build_stack h c a target = build_reactivate h c a"
  using assms by (simp add: build_activate_def build_stack_def build_activate_stack_def)

theorem reenter_is_reactivate_witness:
  "build_activate posix_host demo_context (PosixActivator dev_env) ''dev''
     = build_reactivate posix_host demo_context (PosixActivator dev_env)
   \<and> build_stack posix_host demo_context (PosixActivator dev_env) ''dev''
     = build_reactivate posix_host demo_context (PosixActivator dev_env)"
proof -
  have 1: "resolve_prefix posix_host demo_context ''dev'' = Inr ''/opt/conda/envs/dev''"
    by (simp add: resolve_prefix_def demo_context_def)
  have 2: "environ (PosixActivator dev_env) ''CONDA_PREFIX'' = Some ''/opt/conda/envs/dev''"
    by (simp add: PosixActivator_def dev_env_def)
  have 3: "read_conda_shlvl (PosixActivator dev_env) = Inr 1"
    by (simp add: PosixActivator_def dev_env_def level_simps)
  show ?thesis by (rule reenter_is_reactivate [OF 1 2 3]) simp
qed




text \<open>
  Claim C7, as the code has it. For a target that contains a path separator,
  \<^verbatim>\<open>build_activate\<close> and \<^verbatim>\<open>build_stack\<close> fail with
  \<^verbatim>\<open>EnvironmentLocationNotFound\<close> if and only if the expanded target has no
  \<^verbatim>\<open>conda-meta\<close> directory, and then the result is the error, with no instruction set.
  For a target without a separator (the alias of the base environment, or a name) the
  marker is not checked and this error is never raised.
\<close>

theorem not_found_iff_marker_missing:
  "(list_ex (\<lambda>ch. ch = bslash \<or> ch = CHR ''/'') target \<longrightarrow>
      (raises_not_found (build_activate h c a target)
         \<longleftrightarrow> \<not> isdir h (os_join h [expand h target, ''conda-meta'']))
    \<and> (raises_not_found (build_stack h c a target)
         \<longleftrightarrow> \<not> isdir h (os_join h [expand h target, ''conda-meta'']))
    \<and> (\<not> isdir h (os_join h [expand h target, ''conda-meta'']) \<longrightarrow>
          build_activate h c a target = Inl (EnvironmentLocationNotFound (expand h target))
        \<and> build_stack h c a target = Inl (EnvironmentLocationNotFound (expand h target))))
 \<and> (\<not> list_ex (\<lambda>ch. ch = bslash \<or> ch = CHR ''/'') target \<longrightarrow>
      \<not> raises_not_found (build_activate h c a target)
    \<and> \<not> raises_not_found (build_stack h c a target))"
proof -
  have fail: "build_activate_stack h c a target stk
                = Inl (EnvironmentLocationNotFound (expand h target))"
    if "list_ex (\<lambda>ch. ch = bslash \<or> ch = CHR ''/'') target"
       "\<not> isdir h (os_join h [expand h target, ''conda-meta''])" for stk
    using that by (simp add: build_activate_stack_def resolve_prefix_def Let_def)
  show ?thesis
    unfolding build_activate_def build_stack_def build_activate_stack_not_found
      resolve_prefix_not_found
    using fail by blast
qed

theorem not_found_iff_marker_missing_witness:
  "build_activate posix_host demo_context (PosixActivator level0_env) ''/srv/x''
     = Inl (EnvironmentLocationNotFound ''/srv/x'')
   \<and> build_stack posix_host demo_context (PosixActivator level0_env) ''/srv/x''
     = Inl (EnvironmentLocationNotFound ''/srv/x'')
   \<and> \<not> raises_not_found
         (build_activate posix_host demo_context (PosixActivator level0_env) ''/opt/conda/envs/dev'')
   \<and> \<not> raises_not_found
         (build_stack posix_host demo_context (PosixActivator level0_env) ''dev'')"
proof -
  have 1: "list_ex (\<lambda>ch. ch = bslash \<or> ch = CHR ''/'') ''/srv/x''"
    and 2: "\<not> isdir posix_host (os_join posix_host [expand posix_host ''/srv/x'', ''conda-meta''])"
    and 3: "expand posix_host ''/srv/x'' = ''/srv/x''"
    by (simp_all add: expand_def host_simps)
  have 4: "list_ex (\<lambda>ch. ch = bslash \<or> ch = CHR ''/'') ''/opt/conda/envs/dev''"
    and 5: "isdir posix_host
              (os_join posix_host [expand posix_host ''/opt/conda/envs/dev'', ''conda-meta''])"
    by (simp_all add: expand_def host_simps)
  have 6: "\<not> list_ex (\<lambda>ch. ch = bslash \<or> ch = CHR ''/'') ''dev''"
    by simp
  show ?thesis
    using not_found_iff_marker_missing [of "''/srv/x''" posix_host demo_context
        "PosixActivator level0_env"]
      not_found_iff_marker_missing [of "''/opt/conda/envs/dev''" posix_host demo_context
        "PosixActivator level0_env"]
      not_found_iff_marker_missing [of "''dev''" posix_host demo_context
        "PosixActivator level0_env"]
      1 2 3 4 5 6
    by simp
qed

text \<open>
  The claim has the marker checked for every target. The alias \<^verbatim>\<open>base\<close> resolves to
  the root prefix without a check: with a root prefix that has no \<^verbatim>\<open>conda-meta\<close>,
  activation at level 0 returns an instruction set.
\<close>

theorem marker_not_checked_counterexample:
  "resolve_prefix posix_host bare_context ''base'' = Inr ''/srv/conda''
   \<and> \<not> isdir posix_host (os_join posix_host [''/srv/conda'', ''conda-meta''])
   \<and> build_activate posix_host bare_context (PosixActivator level0_env) ''base''
     = Inr \<lparr>unset_vars = [], set_vars = [(''PS1'', PyStr ''(base) '')],
            export_vars =
              [(''CONDA_PYTHON_EXE'', PyStr ''/opt/conda/bin/python''),
               (''CONDA_EXE'', PyStr ''/srv/conda/bin/conda''),
               (''PATH'', PyStr ''/srv/conda/bin:/usr/bin:/bin''),
               (''CONDA_PREFIX'', PyStr ''/srv/conda''),
               (''CONDA_SHLVL'', PyInt 1),
               (''CONDA_DEFAULT_ENV'', PyStr ''base''),
               (''CONDA_PROMPT_MODIFIER'', PyStr ''(base) '')],
            deactivate_scripts = [], activate_scripts = []\<rparr>
   \<and> \<not> raises_not_found (build_stack posix_host bare_context (PosixActivator level0_env) ''base'')"
  by code_simp

text \<open>
  Claim C10, as the code has it. With \<^verbatim>\<open>CONDA_PREFIX\<close> unset or empty,
  \<^verbatim>\<open>build_deactivate\<close> and \<^verbatim>\<open>build_reactivate\<close> return the empty instruction set
  whenever \<^verbatim>\<open>CONDA_SHLVL\<close> reads as an integer \<open>n\<close>, in particular when it is a
  non-empty string of decimal digits, so also for 1 or more; and an unset, empty or
  whitespace-only \<^verbatim>\<open>CONDA_SHLVL\<close> is read as level 0, without an error.
\<close>

theorem no_prefix_is_inactive:
  "(\<not> truthy (environ a ''CONDA_PREFIX'') \<and> read_conda_shlvl a = Inr n \<longrightarrow>
      build_deactivate h c a = Inr no_cmds \<and> build_reactivate h c a = Inr no_cmds)
 \<and> (\<not> truthy (environ a ''CONDA_PREFIX'')
      \<and> environ a ''CONDA_SHLVL'' = Some s \<and> s \<noteq> [] \<and> list_all is_digit s \<longrightarrow>
      build_deactivate h c a = Inr no_cmds \<and> build_reactivate h c a = Inr no_cmds)
 \<and> ((case environ a ''CONDA_SHLVL'' of None \<Rightarrow> True | Some s \<Rightarrow> list_all is_space s) \<longrightarrow>
      read_conda_shlvl a = Inr 0)"
proof (intro conjI impI)
  assume "\<not> truthy (environ a ''CONDA_PREFIX'') \<and> read_conda_shlvl a = Inr n"
  then show "build_deactivate h c a = Inr no_cmds" "build_reactivate h c a = Inr no_cmds"
    by (simp_all add: build_deactivate_inactive build_reactivate_inactive)
next
  assume *: "\<not> truthy (environ a ''CONDA_PREFIX'')
      \<and> environ a ''CONDA_SHLVL'' = Some s \<and> s \<noteq> [] \<and> list_all is_digit s"
  then obtain m where "read_conda_shlvl a = Inr m"
    using read_conda_shlvl_digits [of a s] by blast
  with * show "build_deactivate h c a = Inr no_cmds" "build_reactivate h c a = Inr no_cmds"
    by (simp_all add: build_deactivate_inactive build_reactivate_inactive)
next
  assume "case environ a ''CONDA_SHLVL'' of None \<Rightarrow> True | Some s \<Rightarrow> list_all is_space s"
  then show "read_conda_shlvl a = Inr 0"
    by (auto simp: read_conda_shlvl_absent read_conda_shlvl_blank py_strip_empty_iff
        list_all_iff split: option.splits)
qed

theorem no_prefix_is_inactive_witness:
  "read_conda_shlvl (PosixActivator no_prefix_env) = Inr 2
   \<and> build_deactivate posix_host demo_context (PosixActivator no_prefix_env) = Inr no_cmds
   \<and> build_reactivate posix_host demo_context (PosixActivator no_prefix_env) = Inr no_cmds
   \<and> read_conda_shlvl (PosixActivator [''CONDA_SHLVL'' \<mapsto> [CHR 0x20, CHR 0x09]]) = Inr 0"
proof -
  have 1: "\<not> truthy (environ (PosixActivator no_prefix_env) ''CONDA_PREFIX'')"
    by (simp add: PosixActivator_def no_prefix_env_def)
  have 2: "read_conda_shlvl (PosixActivator no_prefix_env) = Inr 2"
    by (simp add: PosixActivator_def no_prefix_env_def level_simps)
  have 3: "case environ (PosixActivator [''CONDA_SHLVL'' \<mapsto> [CHR 0x20, CHR 0x09]]) ''CONDA_SHLVL''
           of None \<Rightarrow> True | Some s \<Rightarrow> list_all is_space s"
    by (simp add: PosixActivator_def is_space_def)
  have 4: "environ (PosixActivator no_prefix_env) ''CONDA_SHLVL'' = Some ''2''
           \<and> ''2'' \<noteq> [] \<and> list_all is_digit ''2''"
    by (simp add: PosixActivator_def no_prefix_env_def is_digit_def)
  show ?thesis
    using no_prefix_is_inactive [of "PosixActivator no_prefix_env" 2 posix_host demo_context "''2''"]
      no_prefix_is_inactive [of "PosixActivator [''CONDA_SHLVL'' \<mapsto> [CHR 0x20, CHR 0x09]]" 0
        posix_host demo_context "[]"] 1 2 3 4
    by blast
qed

text \<open>
  The claim is for every snapshot without an environment path. The level is read before
  the path is looked at: a \<^verbatim>\<open>CONDA_SHLVL\<close> that is not a number raises
  \<^verbatim>\<open>ValueError\<close> in both builders.
\<close>

theorem bad_level_counterexample:
  "environ (PosixActivator bad_level_env) ''CONDA_PREFIX'' = None
   \<and> build_deactivate posix_host demo_context (PosixActivator bad_level_env) = Inl ValueError
   \<and> build_reactivate posix_host demo_context (PosixActivator bad_level_env) = Inl ValueError"
  by (simp add: build_deactivate_def build_reactivate_def PosixActivator_def bad_level_env_def
      level_simps)

subsection \<open>Rendering and arguments\<close>

text \<open>
  Claim C8. The commands rendered for an instruction set are, in this order: one per
  deactivate script, one per variable to unset in ascending order of the names, one per
  variable to set in ascending order of the names, one per variable to export in ascending
  order of the names, one per activate script. An instruction set \<open>c'\<close> that holds the
  same variables as \<open>c\<close>, inserted in another order, renders to the same commands.
\<close>

theorem yield_commands_order:
  assumes "distinct (map fst (set_vars c))" and "distinct (map fst (export_vars c))"
      and "mset (unset_vars c') = mset (unset_vars c)"
      and "mset (set_vars c') = mset (set_vars c)"
      and "mset (export_vars c') = mset (export_vars c)"
      and "deactivate_scripts c' = deactivate_scripts c"
      and "activate_scripts c' = activate_scripts c"
  shows "(\<exists>us ss es.
            yield_commands a c =
              map (run_script_tmpl a) (deactivate_scripts c)
              @ map (unset_var_tmpl a) us
              @ map (\<lambda>(key, val). set_var_tmpl a key (py_str val)) ss
              @ map (\<lambda>(key, val). export_var_tmpl a key (py_str val)) es
              @ map (run_script_tmpl a) (activate_scripts c)
          \<and> sorted us \<and> mset us = mset (unset_vars c)
          \<and> sorted (map fst ss) \<and> mset ss = mset (set_vars c)
          \<and> sorted (map fst es) \<and> mset es = mset (export_vars c))
       \<and> yield_commands a c' = yield_commands a c"
proof
  show "\<exists>us ss es.
            yield_commands a c =
              map (run_script_tmpl a) (deactivate_scripts c)
              @ map (unset_var_tmpl a) us
              @ map (\<lambda>(key, val). set_var_tmpl a key (py_str val)) ss
              @ map (\<lambda>(key, val). export_var_tmpl a key (py_str val)) es
              @ map (run_script_tmpl a) (activate_scripts c)
          \<and> sorted us \<and> mset us = mset (unset_vars c)
          \<and> sorted (map fst ss) \<and> mset ss = mset (set_vars c)
          \<and> sorted (map fst es) \<and> mset es = mset (export_vars c)"
    by (intro exI [of _ "sort (unset_vars c)"] exI [of _ "sort_key fst (set_vars c)"]
        exI [of _ "sort_key fst (export_vars c)"]) (simp add: yield_commands_def)
  have "sort (unset_vars c') = sort (unset_vars c)"
    using assms(3) by (rule sort_permuted)
  moreover have "sort_key fst (set_vars c') = sort_key fst (set_vars c)"
    using assms(4) assms(1) by (rule sort_key_permuted)
  moreover have "sort_key fst (export_vars c') = sort_key fst (export_vars c)"
    using assms(5) assms(2) by (rule sort_key_permuted)
  ultimately show "yield_commands a c' = yield_commands a c"
    using assms(6,7) by (simp add: yield_commands_def)
qed

theorem yield_commands_order_witness:
  "yield_commands (PosixActivator Map.empty) demo_cmds_permuted
     = yield_commands (PosixActivator Map.empty) demo_cmds
   \<and> yield_commands (PosixActivator Map.empty) demo_cmds
     = [[bslash] @ ''. '' @ [dquote] @ ''/old/z.sh'' @ [dquote],
        [bslash] @ ''. '' @ [dquote] @ ''/old/a.sh'' @ [dquote],
        [bslash] @ ''unset CONDA_DEFAULT_ENV'',
        [bslash] @ ''unset CONDA_PREFIX_1'',
        ''PS1='' @ [squote] @ ''(dev) $ '' @ [squote],
        [bslash] @ ''export CONDA_PREFIX='' @ [squote] @ ''/opt/conda/envs/dev'' @ [squote],
        [bslash] @ ''export CONDA_SHLVL='' @ [squote] @ ''1'' @ [squote],
        [bslash] @ ''export PATH='' @ [squote] @ ''/opt/conda/envs/dev/bin:/usr/bin'' @ [squote],
        [bslash] @ ''. '' @ [dquote] @ ''/new/a.sh'' @ [dquote],
        [bslash] @ ''. '' @ [dquote] @ ''/new/z.sh'' @ [dquote]]"
proof -
  have 1: "distinct (map fst (set_vars demo_cmds))"
    and 2: "distinct (map fst (export_vars demo_cmds))"
    by (simp_all add: demo_cmds_def)
  have 3: "mset (unset_vars demo_cmds_permuted) = mset (unset_vars demo_cmds)"
    and 4: "mset (set_vars demo_cmds_permuted) = mset (set_vars demo_cmds)"
    and 5: "mset (export_vars demo_cmds_permuted) = mset (export_vars demo_cmds)"
    and 6: "deactivate_scripts demo_cmds_permuted = deactivate_scripts demo_cmds"
    and 7: "activate_scripts demo_cmds_permuted = activate_scripts demo_cmds"
    by (simp_all add: demo_cmds_def demo_cmds_permuted_def)
  have 8: "str_of_int 1 = ''1''"
    by code_simp
  have "yield_commands (PosixActivator Map.empty) demo_cmds
     = [[bslash] @ ''. '' @ [dquote] @ ''/old/z.sh'' @ [dquote],
        [bslash] @ ''. '' @ [dquote] @ ''/old/a.sh'' @ [dquote],
        [bslash] @ ''unset CONDA_DEFAULT_ENV'',
        [bslash] @ ''unset CONDA_PREFIX_1'',
        ''PS1='' @ [squote] @ ''(dev) $ '' @ [squote],
        [bslash] @ ''export CONDA_PREFIX='' @ [squote] @ ''/opt/conda/envs/dev'' @ [squote],
        [bslash] @ ''export CONDA_SHLVL='' @ [squote] @ ''1'' @ [squote],
        [bslash] @ ''export PATH='' @ [squote] @ ''/opt/conda/envs/dev/bin:/usr/bin'' @ [squote],
        [bslash] @ ''. '' @ [dquote] @ ''/new/a.sh'' @ [dquote],
        [bslash] @ ''. '' @ [dquote] @ ''/new/z.sh'' @ [dquote]]"
    by (simp add: yield_commands_def demo_cmds_def PosixActivator_def 8)
  with yield_commands_order [OF 1 2 3 4 5 6 7, of "PosixActivator Map.empty"]
  show ?thesis by simp
qed

text \<open>
  Claim C9. For the command \<^verbatim>\<open>activate\<close>, an argument that is empty or is the word
  \<^verbatim>\<open>activate\<close> is discarded, and when no environment argument remains the target is
  \<^verbatim>\<open>base\<close>: no argument error is raised. The flag \<^verbatim>\<open>--stack\<close>, given at most once,
  only sets the stacking attribute.
\<close>

theorem activate_defaults_to_base:
  assumes "\<forall>x \<in> set rest. x = [] \<or> x = ''activate'' \<or> x = ''--stack''"
      and "count_list rest ''--stack'' \<le> 1"
  shows "parse_and_set_args a (Some (''activate'' # rest)) =
           Inr (a\<lparr>self_stack := Some (''--stack'' \<in> set rest),
                  self_env_name_or_prefix := Some ''base'',
                  self_command := Some ''activate''\<rparr>)"
proof -
  let ?n = "count_list rest ''--stack''"
  from assms(2) have n: "?n = 0 \<or> ?n = 1" by linarith
  have mem: "''--stack'' \<in> set rest \<longleftrightarrow> ?n = 1"
    using n by (metis count_list_0_iff zero_neq_one)
  from n show ?thesis
    using flags_only_filter [OF assms(1)] mem
    by (auto simp: parse_and_set_args_def Let_def)
qed

theorem activate_defaults_to_base_witness:
  "parse_and_set_args (PosixActivator level0_env) (Some [''activate'', ''activate'']) =
     Inr ((PosixActivator level0_env)\<lparr>self_stack := Some False,
            self_env_name_or_prefix := Some ''base'', self_command := Some ''activate''\<rparr>)
   \<and> parse_and_set_args (PosixActivator level0_env) (Some [''activate'', [], ''--stack'']) =
     Inr ((PosixActivator level0_env)\<lparr>self_stack := Some True,
            self_env_name_or_prefix := Some ''base'', self_command := Some ''activate''\<rparr>)
   \<and> parse_and_set_args (PosixActivator level0_env) (Some [''activate'']) =
     Inr ((PosixActivator level0_env)\<lparr>self_stack := Some False,
            self_env_name_or_prefix := Some ''base'', self_command := Some ''activate''\<rparr>)"
  using activate_defaults_to_base [of "[''activate'']" "PosixActivator level0_env"]
    activate_defaults_to_base [of "[[], ''--stack'']" "PosixActivator level0_env"]
    activate_defaults_to_base [of "[]" "PosixActivator level0_env"]
  by simp

end
